theory Spec2Isabelle
  imports
    Complex_Main
    "HOL-Library.Char_ord"
    "HOL-Library.List_Lexorder"
begin

section \<open>Python strings over the code points 0 to 255\<close>

text \<open>
  A Python \<open>str\<close> is a sequence of code points. It is modelled as a \<open>string\<close> whose
  characters carry the code points 0 to 255 (ASCII and the Latin-1 supplement); text with
  higher code points is outside the model. The orders come from \<open>Char_ord\<close> (by code
  point) and \<open>List_Lexorder\<close> (lexicographic, a proper prefix first), which is how
  Python compares characters and strings. On this range \<open>str.lower\<close> acts on each
  character by itself, and \<open>str.isalpha\<close>, \<open>str.strip\<close> use the character classes
  written out below.
\<close>

definition SEED_LEN :: nat where
  "SEED_LEN = 5"

definition char_isalpha :: "char \<Rightarrow> bool" where
  "char_isalpha c =
     (let n = (of_char c :: nat)
      in (65 \<le> n \<and> n \<le> 90) \<or> (97 \<le> n \<and> n \<le> 122) \<or> n = 170 \<or> n = 181 \<or> n = 186
         \<or> (192 \<le> n \<and> n \<le> 214) \<or> (216 \<le> n \<and> n \<le> 246) \<or> (248 \<le> n \<and> n \<le> 255))"

definition char_isspace :: "char \<Rightarrow> bool" where
  "char_isspace c =
     (let n = (of_char c :: nat)
      in (9 \<le> n \<and> n \<le> 13) \<or> (28 \<le> n \<and> n \<le> 32) \<or> n = 133 \<or> n = 160)"

definition char_lower :: "char \<Rightarrow> char" where
  "char_lower c =
     (let n = (of_char c :: nat)
      in if (65 \<le> n \<and> n \<le> 90) \<or> (192 \<le> n \<and> n \<le> 214) \<or> (216 \<le> n \<and> n \<le> 222)
         then char_of (n + 32) else c)"

text \<open>\<open>s.isalpha()\<close>: every character is a letter and there is at least one.\<close>

definition isalpha :: "string \<Rightarrow> bool" where
  "isalpha s = (s \<noteq> [] \<and> list_all char_isalpha s)"

text \<open>\<open>s.lower()\<close>.\<close>

definition lower :: "string \<Rightarrow> string" where
  "lower s = map char_lower s"

text \<open>\<open>s.strip()\<close>: leading and trailing whitespace removed.\<close>

definition strip :: "string \<Rightarrow> string" where
  "strip s = rev (dropWhile char_isspace (rev (dropWhile char_isspace s)))"


section \<open>Vocabulary and anagram index\<close>

text \<open>\<open>signature(w) = "".join(sorted(w))\<close>.\<close>

definition signature :: "string \<Rightarrow> string" where
  "signature w = sort w"

text \<open>
  The index is a dictionary from signatures to word lists.
  \<open>index_add\<close> is one round of the grouping loop, \<open>idx.setdefault(signature(w), []).append(w)\<close>.
\<close>

type_synonym index = "string \<rightharpoonup> string list"

definition index_add :: "string \<Rightarrow> index \<Rightarrow> index" where
  "index_add w idx =
     idx(signature w \<mapsto> (case idx (signature w) of None \<Rightarrow> [] | Some ws \<Rightarrow> ws) @ [w])"

text \<open>
  \<open>build_five_index\<close>. The result of \<open>top_n_list("en", n=limit_vocab)\<close> is the parameter
  \<open>top_words\<close>, and \<open>zipf_frequency(w, "en")\<close> is the parameter \<open>zipf\<close>; the frequencies and
  the threshold are compared as real numbers. The last loop replaces every bucket by
  \<open>sorted(list(set(bucket)))\<close>.
\<close>

definition build_five_index ::
  "string list \<Rightarrow> (string \<Rightarrow> real) \<Rightarrow> real \<Rightarrow> string list \<times> index" where
  "build_five_index top_words zipf min_zipf =
     (let words = map lower (filter isalpha top_words);
          five = filter (\<lambda>w. length w = SEED_LEN \<and> zipf w \<ge> min_zipf) words;
          idx = fold index_add five Map.empty
      in (five, \<lambda>k. map_option (\<lambda>ws. sort (remdups ws)) (idx k)))"

text \<open>\<open>five_letter_anagrams\<close>: \<open>ANAGRAM5_INDEX.get(letters_sorted, [])\<close>.\<close>

definition five_letter_anagrams :: "index \<Rightarrow> string \<Rightarrow> string list" where
  "five_letter_anagrams idx letters_sorted =
     (case idx letters_sorted of None \<Rightarrow> [] | Some ws \<Rightarrow> ws)"


section \<open>Process globals\<close>

text \<open>
  The module-level values that the handlers read: \<open>FIVE_WORDS\<close> and \<open>ANAGRAM5_INDEX\<close>
  (assigned once from \<open>build_five_index()\<close>), \<open>MIN_ZIPF\<close>, the library function
  \<open>zipf_frequency(., "en")\<close>, and whether the environment has \<open>DISABLE_LLM=1\<close>.
\<close>

record globals =
  FIVE_WORDS :: "string list"
  ANAGRAM5_INDEX :: index
  MIN_ZIPF :: real
  zipf_frequency :: "string \<Rightarrow> real"
  DISABLE_LLM :: bool

text \<open>Module initialisation: \<open>FIVE_WORDS, ANAGRAM5_INDEX = build_five_index()\<close>.\<close>

definition startup :: "string list \<Rightarrow> (string \<Rightarrow> real) \<Rightarrow> real \<Rightarrow> bool \<Rightarrow> globals" where
  "startup top_words zipf min_zipf disable_llm =
     (let (five, idx) = build_five_index top_words zipf min_zipf
      in \<lparr>FIVE_WORDS = five, ANAGRAM5_INDEX = idx, MIN_ZIPF = min_zipf,
          zipf_frequency = zipf, DISABLE_LLM = disable_llm\<rparr>)"


section \<open>Sessions\<close>

record GameState =
  topic :: string
  letters :: string
  scrambled :: string
  targets :: "string list"
  found :: "string list"

text \<open>\<open>SESSIONS: Dict[str, GameState]\<close>.\<close>

type_synonym sessions = "string \<rightharpoonup> GameState"


section \<open>Random draws\<close>

text \<open>
  Each call of the \<open>random\<close> and \<open>uuid\<close> modules is resolved by a natural number that
  the caller supplies, so that every outcome of the call is the value at some draw.
  \<open>random_choice r xs\<close> is \<open>random.choice(xs)\<close> for a non-empty \<open>xs\<close>; the source
  calls it on non-empty sequences only.
\<close>

definition random_choice :: "nat \<Rightarrow> 'a list \<Rightarrow> 'a" where
  "random_choice r xs = xs ! (r mod length xs)"

text \<open>
  \<open>random.shuffle\<close>: for \<open>i\<close> from \<open>len(x) - 1\<close> down to 1, swap \<open>x[i]\<close> with
  \<open>x[j]\<close> for a random \<open>j \<le> i\<close>. \<open>shuffle_from i\<close> runs the rounds \<open>i, ..., 1\<close>.
\<close>

fun shuffle_from :: "nat \<Rightarrow> (nat \<Rightarrow> nat) \<Rightarrow> 'a list \<Rightarrow> 'a list" where
  "shuffle_from 0 r xs = xs"
| "shuffle_from (Suc i) r xs =
     (let j = r (Suc i) mod (Suc (Suc i))
      in shuffle_from i r (xs[Suc i := xs ! j, j := xs ! Suc i]))"

definition scramble :: "(nat \<Rightarrow> nat) \<Rightarrow> string \<Rightarrow> string" where
  "scramble r letters_sorted = shuffle_from (length letters_sorted - 1) r letters_sorted"

text \<open>\<open>uuid.uuid4().hex\<close>: the 128-bit value of the identifier as 32 hexadecimal digits.\<close>

definition hex_digit :: "nat \<Rightarrow> char" where
  "hex_digit d = ''0123456789abcdef'' ! d"

fun hex_digits :: "nat \<Rightarrow> nat \<Rightarrow> string" where
  "hex_digits 0 n = []"
| "hex_digits (Suc k) n = hex_digits k (n div 16) @ [hex_digit (n mod 16)]"

definition uuid4_hex :: "nat \<Rightarrow> string" where
  "uuid4_hex u = hex_digits 32 (u mod 2 ^ 128)"

text \<open>The draws of one \<open>new_game\<close> request, one field for each place that draws.\<close>

record draws =
  ask_draw :: "nat \<times> nat"
  len_draw :: "nat \<times> nat"
  empty_draw :: "nat \<times> nat"
  shuffle_draw :: "nat \<Rightarrow> nat"
  uuid_draw :: nat


section \<open>Seed pickers\<close>

definition TOPICS :: "string list" where
  "TOPICS = [''animals'', ''music'', ''space'', ''sports'', ''food'']"

text \<open>\<open>_fallback_topic_word\<close>; the pair \<open>d\<close> holds the draws for the topic and the word.\<close>

definition fallback_topic_word :: "globals \<Rightarrow> nat \<times> nat \<Rightarrow> string \<times> string" where
  "fallback_topic_word G d =
     (let topic = random_choice (fst d) TOPICS
      in if FIVE_WORDS G \<noteq> [] then (topic, random_choice (snd d) (FIVE_WORDS G))
         else (topic, ''tiger''))"

text \<open>
  One round of the \<open>try\<close> block of \<open>ask_tinyllama_topic_and_word\<close>: the request to the
  model, the search for \<open>{...}\<close> in the answer, \<open>json.loads\<close> and the two subscripts.
  \<open>Raised\<close> is any exception in the block, which \<open>except Exception: continue\<close> catches;
  \<open>Reply t w\<close> carries \<open>str(blob["topic"])\<close> and \<open>str(blob["word"])\<close>.
\<close>

datatype reply = Raised | Reply string string

text \<open>
  The loop \<open>for _ in range(3)\<close>, over the round numbers; \<open>client i\<close> is what round \<open>i\<close>
  gets. The result counts the requests made and holds the pair of the \<open>return\<close> inside
  the loop, if it was reached.
\<close>

fun llm_rounds :: "globals \<Rightarrow> (nat \<Rightarrow> reply) \<Rightarrow> nat list \<Rightarrow> nat \<times> (string \<times> string) option" where
  "llm_rounds G client [] = (0, None)"
| "llm_rounds G client (i # rest) =
     (case client i of
        Raised \<Rightarrow> (let (n, res) = llm_rounds G client rest in (Suc n, res))
      | Reply t w \<Rightarrow>
          (let topic = strip t; word = lower (strip w)
           in if isalpha word \<and> length word = SEED_LEN \<and> zipf_frequency G word \<ge> MIN_ZIPF G
              then (Suc 0, Some (topic, word))
              else (let (n, res) = llm_rounds G client rest in (Suc n, res))))"

definition ask_tinyllama_topic_and_word ::
  "globals \<Rightarrow> (nat \<Rightarrow> reply) \<Rightarrow> nat \<times> nat \<Rightarrow> nat \<times> (string \<times> string)" where
  "ask_tinyllama_topic_and_word G client d =
     (if DISABLE_LLM G \<or> FIVE_WORDS G = [] then (0, fallback_topic_word G d)
      else (case llm_rounds G client [0..<3] of
              (n, Some p) \<Rightarrow> (n, p)
            | (n, None) \<Rightarrow> (n, fallback_topic_word G d)))"


text \<open>
  What one round of the loop returns from inside the loop, if it returns: the stripped
  topic and the stripped, lowercased word of a reply whose word passes the three checks.
  \<open>None\<close> is a round that raised or whose word was refused.
\<close>

definition round_pair :: "globals \<Rightarrow> reply \<Rightarrow> (string \<times> string) option" where
  "round_pair G rep =
     (case rep of
        Raised \<Rightarrow> None
      | Reply t w \<Rightarrow>
          (let topic = strip t; word = lower (strip w)
           in if isalpha word \<and> length word = SEED_LEN \<and> zipf_frequency G word \<ge> MIN_ZIPF G
              then Some (topic, word) else None))"

section \<open>JSON values and their Python renderings\<close>

text \<open>
  What \<open>request.get_json(force=True)\<close> returns: \<open>JNull\<close> is \<open>None\<close>, an object is the
  list of the items of the parsed \<open>dict\<close> (its keys are distinct).
\<close>

datatype json =
    JNull
  | JBool bool
  | JInt int
  | JFloat real
  | JStr string
  | JArr "json list"
  | JObj "(string \<times> json) list"

text \<open>\<open>d.get(k)\<close> on a parsed object: \<open>None\<close> when the key is absent.\<close>

definition dict_get :: "(string \<times> json) list \<Rightarrow> string \<Rightarrow> json" where
  "dict_get kvs k = (case map_of kvs k of None \<Rightarrow> JNull | Some v \<Rightarrow> v)"

text \<open>\<open>d.get(k, default)\<close>.\<close>

definition dict_get_default :: "(string \<times> json) list \<Rightarrow> string \<Rightarrow> json \<Rightarrow> json" where
  "dict_get_default kvs k dflt = (case map_of kvs k of None \<Rightarrow> dflt | Some v \<Rightarrow> v)"

text \<open>Truth value of a Python object, as \<open>not sid\<close> tests it.\<close>

fun truthy :: "json \<Rightarrow> bool" where
  "truthy JNull = False"
| "truthy (JBool b) = b"
| "truthy (JInt i) = (i \<noteq> 0)"
| "truthy (JFloat x) = (x \<noteq> 0)"
| "truthy (JStr s) = (s \<noteq> [])"
| "truthy (JArr vs) = (vs \<noteq> [])"
| "truthy (JObj kvs) = (kvs \<noteq> [])"

text \<open>Decimal digits of an integer, as \<open>str\<close> prints it.\<close>

fun str_nat :: "nat \<Rightarrow> string" where
  "str_nat n = (if n < 10 then [char_of (48 + n)] else str_nat (n div 10) @ [char_of (48 + n mod 10)])"

definition str_int :: "int \<Rightarrow> string" where
  "str_int i = (if i < 0 then CHR ''-'' # str_nat (nat (- i)) else str_nat (nat i))"

text \<open>
  \<open>str(v)\<close>. The renderings of floats, lists and dicts are not written out here: they
  are what the parameter \<open>render\<close> returns.
\<close>

fun py_str :: "(json \<Rightarrow> string) \<Rightarrow> json \<Rightarrow> string" where
  "py_str render (JStr s) = s"
| "py_str render JNull = ''None''"
| "py_str render (JBool b) = (if b then ''True'' else ''False'')"
| "py_str render (JInt i) = str_int i"
| "py_str render v = render v"


section \<open>Request handlers\<close>

text \<open>
  The exceptions that leave a handler. \<open>BadRequest\<close> is the HTTP exception that
  \<open>get_json\<close> raises for a body it cannot load; the framework answers it with its own
  400 page. The others are answered with status 500.
\<close>

datatype py_error = AttributeError | TypeError | RecursionError | BadRequest

text \<open>
  A handler's answer: \<open>Ok200 body\<close> is \<open>jsonify(body)\<close>, and \<open>Err400 msg\<close> is
  \<open>jsonify({"error": msg}), 400\<close>.
\<close>

datatype 'a response = Ok200 'a | Err400 string

record new_reply =
  n_session_id :: string
  n_topic :: string
  n_scrambled :: string
  n_letters :: string
  n_answer_count :: nat

record guess_reply =
  g_correct :: bool
  g_found :: "string list"
  g_remaining :: int
  g_complete :: bool

record state_reply =
  s_topic :: string
  s_scrambled :: string
  s_letters :: string
  s_found :: "string list"
  s_total :: nat

text \<open>
  \<open>new_game\<close>. The picker of this model returns a pair for every input, so the
  \<open>except Exception\<close> around its call has no case here. The stored \<open>targets\<close> is the
  list of the index itself; no handler writes to it.
\<close>

definition new_game ::
  "globals \<Rightarrow> (nat \<Rightarrow> reply) \<Rightarrow> draws \<Rightarrow> sessions \<Rightarrow> new_reply response \<times> sessions" where
  "new_game G client rnd S =
     (let (topic0, word0) = snd (ask_tinyllama_topic_and_word G client (ask_draw rnd));
          (topic1, word1) = (if length word0 \<noteq> SEED_LEN
                             then fallback_topic_word G (len_draw rnd) else (topic0, word0));
          letters1 = sort word1;
          targets1 = five_letter_anagrams (ANAGRAM5_INDEX G) letters1;
          (topic2, word2, letters2, targets2) =
             (if targets1 = []
              then (let (t, w) = fallback_topic_word G (empty_draw rnd);
                        l = sort w
                    in (t, w, l, five_letter_anagrams (ANAGRAM5_INDEX G) l))
              else (topic1, word1, letters1, targets1));
          scram = scramble (shuffle_draw rnd) letters2;
          sid = uuid4_hex (uuid_draw rnd)
      in (Ok200 \<lparr>n_session_id = sid, n_topic = topic2, n_scrambled = scram,
                 n_letters = letters2, n_answer_count = length targets2\<rparr>,
          S(sid \<mapsto> \<lparr>topic = topic2, letters = letters2, scrambled = scram,
                     targets = targets2, found = []\<rparr>)))"

text \<open>
  \<open>sid in SESSIONS\<close> followed by \<open>SESSIONS[sid]\<close>, for the value of the \<open>session_id\<close>
  field: a list or a dict is not hashable and the test raises; the keys are strings, so
  no other value is one. A hit returns the key with the session.
\<close>

fun lookup_session :: "sessions \<Rightarrow> json \<Rightarrow> py_error + (string \<times> GameState) option" where
  "lookup_session S (JStr s) = Inr (case S s of None \<Rightarrow> None | Some gs \<Rightarrow> Some (s, gs))"
| "lookup_session S (JArr vs) = Inl TypeError"
| "lookup_session S (JObj kvs) = Inl TypeError"
| "lookup_session S v = Inr None"

text \<open>The values that \<open>hash\<close> accepts: all but lists and dicts.\<close>

fun hashable :: "json \<Rightarrow> bool" where
  "hashable (JArr vs) = False"
| "hashable (JObj kvs) = False"
| "hashable v = True"

text \<open>The guess as the handler reads it: \<open>str(data.get("guess", "")).lower().strip()\<close>.\<close>

definition normalized_guess :: "(json \<Rightarrow> string) \<Rightarrow> (string \<times> json) list \<Rightarrow> string" where
  "normalized_guess render kvs =
     strip (lower (py_str render (dict_get_default kvs ''guess'' (JStr []))))"

text \<open>
  \<open>guess\<close> from its second line on, for the value \<open>data\<close> that
  \<open>request.get_json(force=True)\<close> returned; \<open>guess_request\<close> below puts that first line
  before it. A value that is not an object has no \<open>get\<close>. \<open>gs.found.append(g)\<close> changes
  the stored session in place.
\<close>

definition guess ::
  "(json \<Rightarrow> string) \<Rightarrow> sessions \<Rightarrow> json \<Rightarrow> py_error + (guess_reply response \<times> sessions)" where
  "guess render S data =
     (case data of
        JObj kvs \<Rightarrow>
          (let sid = dict_get kvs ''session_id'';
               g = normalized_guess render kvs
           in if \<not> truthy sid then Inr (Err400 ''invalid session'', S)
              else (case lookup_session S sid of
                      Inl e \<Rightarrow> Inl e
                    | Inr None \<Rightarrow> Inr (Err400 ''invalid session'', S)
                    | Inr (Some (key, gs)) \<Rightarrow>
                        (let ok = (length g = SEED_LEN \<and> g \<in> set (targets gs)
                                   \<and> signature g = letters gs);
                             gs' = (if ok \<and> g \<notin> set (found gs)
                                    then gs\<lparr>found := found gs @ [g]\<rparr> else gs);
                             S' = (if ok \<and> g \<notin> set (found gs) then S(key \<mapsto> gs') else S)
                         in Inr (Ok200 \<lparr>g_correct = ok, g_found = found gs',
                                        g_remaining = int (length (targets gs')) - int (length (found gs')),
                                        g_complete = (length (found gs') = length (targets gs'))\<rparr>,
                                 S'))))
      | _ \<Rightarrow> Inl AttributeError)"

text \<open>
  The first line of \<open>guess\<close>, \<open>data = request.get_json(force=True)\<close>. The library is not
  part of the source; what is modelled of it is where loading a body fails. A request
  body is a JSON document or is not one. In a document, a whole number of more than
  \<open>INT_MAX_STR_DIGITS\<close> digits (the interpreter's default limit for converting between
  \<open>int\<close> and \<open>str\<close>) makes \<open>json.loads\<close> raise \<open>ValueError\<close>, which \<open>get_json\<close> turns
  into \<open>BadRequest\<close>, as it does for a body that is not JSON. Every list or object that the
  decoder enters uses one level of the interpreter's recursion limit; \<open>depth\<close> is the
  number of levels left to the decoder, and entering one more raises \<open>RecursionError\<close>.
  The decoder reads the document from left to right, so the first failure is the one raised.
\<close>

definition INT_MAX_STR_DIGITS :: nat where
  "INT_MAX_STR_DIGITS = 4300"

datatype body = Malformed | Document json

text \<open>\<open>scan depth v\<close> is the exception that decoding \<open>v\<close> raises, if any.\<close>

fun scan :: "nat \<Rightarrow> json \<Rightarrow> py_error option"
  and scan_list :: "nat \<Rightarrow> json list \<Rightarrow> py_error option"
  and scan_items :: "nat \<Rightarrow> (string \<times> json) list \<Rightarrow> py_error option" where
  "scan n (JInt i) = (if 10 ^ INT_MAX_STR_DIGITS \<le> \<bar>i\<bar> then Some BadRequest else None)"
| "scan n (JArr vs) = (case n of 0 \<Rightarrow> Some RecursionError | Suc m \<Rightarrow> scan_list m vs)"
| "scan n (JObj kvs) = (case n of 0 \<Rightarrow> Some RecursionError | Suc m \<Rightarrow> scan_items m kvs)"
| "scan n JNull = None"
| "scan n (JBool b) = None"
| "scan n (JFloat x) = None"
| "scan n (JStr s) = None"
| "scan_list n [] = None"
| "scan_list n (v # vs) = (case scan n v of Some e \<Rightarrow> Some e | None \<Rightarrow> scan_list n vs)"
| "scan_items n [] = None"
| "scan_items n (kv # kvs) = (case scan n (snd kv) of Some e \<Rightarrow> Some e | None \<Rightarrow> scan_items n kvs)"

definition get_json :: "nat \<Rightarrow> body \<Rightarrow> py_error + json" where
  "get_json depth b =
     (case b of
        Malformed \<Rightarrow> Inl BadRequest
      | Document v \<Rightarrow> (case scan depth v of Some e \<Rightarrow> Inl e | None \<Rightarrow> Inr v))"

text \<open>The whole handler: the body is loaded, and \<open>guess\<close> runs on what was loaded.\<close>

definition guess_request ::
  "nat \<Rightarrow> (json \<Rightarrow> string) \<Rightarrow> sessions \<Rightarrow> body \<Rightarrow> py_error + (guess_reply response \<times> sessions)" where
  "guess_request depth render S b =
     (case get_json depth b of Inl e \<Rightarrow> Inl e | Inr data \<Rightarrow> guess render S data)"

text \<open>
  \<open>state\<close>, from the query parameter: \<open>request.args.get("session_id", "")\<close> is the
  parameter's string, or the empty string when it is absent.
\<close>

definition state :: "sessions \<Rightarrow> string option \<Rightarrow> state_reply response \<times> sessions" where
  "state S arg =
     (let sid = (case arg of None \<Rightarrow> [] | Some s \<Rightarrow> s)
      in case S sid of
           None \<Rightarrow> (Err400 ''invalid session'', S)
         | Some gs \<Rightarrow>
             (Ok200 \<lparr>s_topic = topic gs, s_scrambled = scrambled gs, s_letters = letters gs,
                     s_found = found gs, s_total = length (targets gs)\<rparr>, S))"


section \<open>Reachable session stores\<close>

text \<open>
  The stores that the process can hold: it starts with none, and only \<open>new_game\<close> and
  \<open>guess\<close> write to it.
\<close>

inductive reachable :: "globals \<Rightarrow> (json \<Rightarrow> string) \<Rightarrow> sessions \<Rightarrow> bool"
  for G :: globals and render :: "json \<Rightarrow> string" where
  start: "reachable G render Map.empty"
| after_new: "reachable G render S \<Longrightarrow> new_game G client rnd S = (r, S') \<Longrightarrow> reachable G render S'"
| after_guess: "reachable G render S \<Longrightarrow> guess render S data = Inr (r, S') \<Longrightarrow> reachable G render S'"


section \<open>Invariant of the session store\<close>

text \<open>
  Every stored session has a 32-character key, its \<open>targets\<close> is the bucket of its
  \<open>letters\<close>, and its \<open>found\<close> is a duplicate-free list of targets.
\<close>

definition store_ok :: "globals \<Rightarrow> sessions \<Rightarrow> bool" where
  "store_ok G S =
     (\<forall>sid gs. S sid = Some gs \<longrightarrow>
        length sid = 32
        \<and> targets gs = five_letter_anagrams (ANAGRAM5_INDEX G) (letters gs)
        \<and> distinct (found gs) \<and> set (found gs) \<subseteq> set (targets gs))"


section \<open>A concrete run\<close>

text \<open>
  A small vocabulary, in which \<open>tiger\<close> is too rare to qualify, and the session that
  the first \<open>new_game\<close> request creates from it with the model switched off.
\<close>

definition ex_words :: "string list" where
  "ex_words = [''the'', ''Aster'', ''rates'', ''stare'', ''u.s.a'', ''tears'', ''rates'', ''tiger'']"

definition ex_zipf :: "string \<Rightarrow> real" where
  "ex_zipf w = (if w = ''tiger'' then 3 else 5)"

definition ex_min_zipf :: real where
  "ex_min_zipf = 3.4"

definition ex_G :: globals where
  "ex_G = startup ex_words ex_zipf ex_min_zipf True"

definition ex_rnd :: draws where
  "ex_rnd = \<lparr>ask_draw = (0, 0), len_draw = (0, 0), empty_draw = (0, 0),
             shuffle_draw = (\<lambda>i. 0), uuid_draw = 7\<rparr>"

definition ex_gs :: GameState where
  "ex_gs = \<lparr>topic = ''animals'', letters = ''aerst'', scrambled = scramble (\<lambda>i. 0) ''aerst'',
            targets = [''aster'', ''rates'', ''stare'', ''tears''], found = []\<rparr>"

definition ex_S :: sessions where
  "ex_S = Map.empty(uuid4_hex 7 \<mapsto> ex_gs)"


definition ex_render :: "json \<Rightarrow> string" where
  "ex_render v = ''[]''"

text \<open>A request body for the session of the run, with \<open>v\<close> in its \<open>guess\<close> field.\<close>

definition ex_body :: "json \<Rightarrow> (string \<times> json) list" where
  "ex_body v = [(''session_id'', JStr (uuid4_hex 7)), (''guess'', v)]"


text \<open>The same globals with the model switched on, and a client whose third answer is usable.\<close>

definition ex_G_llm :: globals where
  "ex_G_llm = startup ex_words ex_zipf ex_min_zipf False"

fun ex_client :: "nat \<Rightarrow> reply" where
  "ex_client 0 = Raised"
| "ex_client (Suc 0) = Reply ''animals'' ''TIGER''"
| "ex_client (Suc (Suc n)) = Reply '' Music '' '' Stare''"

text \<open>A client none of whose three answers is usable.\<close>

fun ex_client_bad :: "nat \<Rightarrow> reply" where
  "ex_client_bad 0 = Raised"
| "ex_client_bad (Suc 0) = Reply ''animals'' ''TIGER''"
| "ex_client_bad (Suc (Suc n)) = Reply ''{}'' ''four''"

text \<open>A whole number of 4301 digits.\<close>

definition ex_long_int :: int where
  "ex_long_int = 10 ^ 4300"

text \<open>The session of the run after three of its four targets have been found.\<close>

definition ex_gs3 :: GameState where
  "ex_gs3 = ex_gs\<lparr>found := [''stare'', ''aster'', ''tears'']\<rparr>"

definition ex_S3 :: sessions where
  "ex_S3 = Map.empty(uuid4_hex 7 \<mapsto> ex_gs3)"


section \<open>Strings\<close>

lemma char_lower_idem: "char_lower (char_lower c) = char_lower c"
  by (auto simp: char_lower_def Let_def)

lemma char_isalpha_lower: "char_isalpha c \<Longrightarrow> char_isalpha (char_lower c)"
  by (auto simp: char_lower_def char_isalpha_def Let_def)

lemma lower_idem: "lower (lower s) = lower s"
  by (simp add: lower_def char_lower_idem)

lemma length_lower: "length (lower s) = length s"
  by (simp add: lower_def)

lemma isalpha_lower: "isalpha s \<Longrightarrow> isalpha (lower s)"
  by (auto simp: isalpha_def lower_def list_all_iff char_isalpha_lower)


section \<open>The index\<close>

text \<open>After the grouping loop, the bucket of a key holds the words of that signature, in order.\<close>

lemma fold_index_add_lookup:
  "fold index_add ws idx k =
     (let new = filter (\<lambda>w. signature w = k) ws
      in if new = [] then idx k else Some ((case idx k of None \<Rightarrow> [] | Some b \<Rightarrow> b) @ new))"
proof (induction ws arbitrary: idx)
  case Nil
  show ?case by simp
next
  case (Cons w ws)
  show ?case
    apply (simp only: fold_simps o_apply Cons.IH)
    apply (simp add: index_add_def Let_def split: option.splits)
    done
qed

lemma build_five_index_lookup:
  "snd (build_five_index tw zipf mz) k =
     (let b = filter (\<lambda>w. signature w = k) (fst (build_five_index tw zipf mz))
      in if b = [] then None else Some (sort (remdups b)))"
  by (simp add: build_five_index_def Let_def fold_index_add_lookup)

lemma five_words_props:
  "w \<in> set (fst (build_five_index tw zipf mz)) \<Longrightarrow>
     length w = SEED_LEN \<and> zipf w \<ge> mz \<and> isalpha w \<and> lower w = w"
  by (auto simp: build_five_index_def Let_def isalpha_lower lower_idem)

lemma anagrams_set:
  "set (five_letter_anagrams (snd (build_five_index tw zipf mz)) k) =
     {w \<in> set (fst (build_five_index tw zipf mz)). signature w = k}"
  by (auto simp: five_letter_anagrams_def build_five_index_lookup Let_def filter_empty_conv)

lemma anagrams_distinct_sorted:
  "distinct (five_letter_anagrams (snd (build_five_index tw zipf mz)) k) \<and>
   sorted (five_letter_anagrams (snd (build_five_index tw zipf mz)) k)"
  by (simp add: five_letter_anagrams_def build_five_index_lookup Let_def)

lemma ex_five:
  "fst (build_five_index ex_words ex_zipf ex_min_zipf) =
     [''aster'', ''rates'', ''stare'', ''tears'', ''rates'']"
  by (simp add: build_five_index_def ex_words_def ex_zipf_def ex_min_zipf_def isalpha_def
      char_isalpha_def lower_def char_lower_def SEED_LEN_def Let_def char_of_eq_iff)

lemma ex_bucket:
  "snd (build_five_index ex_words ex_zipf ex_min_zipf) ''aerst'' =
     Some [''aster'', ''rates'', ''stare'', ''tears'']"
  by (simp add: build_five_index_lookup ex_five signature_def Let_def)

text \<open>
  C2. In the index that \<open>build_five_index\<close> returns, every word of every bucket has
  exactly five characters, a frequency of at least the threshold and the bucket's key as
  its signature (so all words of a bucket share their signature), and every bucket is
  free of duplicates and sorted.
\<close>

theorem build_five_index_buckets:
  assumes "build_five_index top_words zipf min_zipf = (five, idx)"
    and "idx k = Some ws"
  shows "(\<forall>w \<in> set ws. length w = 5 \<and> zipf w \<ge> min_zipf \<and> signature w = k)
         \<and> distinct ws \<and> sorted ws"
proof -
  have idx: "idx = snd (build_five_index top_words zipf min_zipf)"
    and five: "five = fst (build_five_index top_words zipf min_zipf)"
    using assms(1) by simp_all
  have ws: "ws = five_letter_anagrams idx k"
    using assms(2) by (simp add: five_letter_anagrams_def)
  have "set ws = {w \<in> set five. signature w = k}"
    unfolding ws idx five by (rule anagrams_set)
  moreover have "\<forall>w \<in> set five. length w = 5 \<and> zipf w \<ge> min_zipf"
    using five_words_props [of _ top_words zipf min_zipf] unfolding five SEED_LEN_def by blast
  moreover have "distinct ws \<and> sorted ws"
    unfolding ws idx by (rule anagrams_distinct_sorted)
  ultimately show ?thesis by blast
qed

theorem build_five_index_buckets_witness:
  "snd (build_five_index ex_words ex_zipf ex_min_zipf) ''aerst''
     = Some [''aster'', ''rates'', ''stare'', ''tears'']
   \<and> length ''rates'' = 5 \<and> ex_zipf ''rates'' \<ge> ex_min_zipf \<and> signature ''rates'' = ''aerst''
   \<and> signature ''tears'' = signature ''aster''
   \<and> distinct [''aster'', ''rates'', ''stare'', ''tears'']
   \<and> sorted [''aster'', ''rates'', ''stare'', ''tears'']"
  using build_five_index_buckets [OF prod.collapse [symmetric] ex_bucket] ex_bucket
  by simp


section \<open>Sessions and guesses\<close>

lemma length_hex_digits: "length (hex_digits k n) = k"
  by (induction k arbitrary: n) simp_all

lemma length_uuid4_hex: "length (uuid4_hex u) = 32"
  by (simp add: uuid4_hex_def length_hex_digits)

lemma uuid4_hex_nonempty: "uuid4_hex u \<noteq> []"
  using length_uuid4_hex [of u] by auto

lemma new_game_shape:
  "\<exists>t l. new_game G client rnd S =
     (Ok200 \<lparr>n_session_id = uuid4_hex (uuid_draw rnd), n_topic = t,
             n_scrambled = scramble (shuffle_draw rnd) l, n_letters = l,
             n_answer_count = length (five_letter_anagrams (ANAGRAM5_INDEX G) l)\<rparr>,
      S(uuid4_hex (uuid_draw rnd) \<mapsto>
          \<lparr>topic = t, letters = l, scrambled = scramble (shuffle_draw rnd) l,
           targets = five_letter_anagrams (ANAGRAM5_INDEX G) l, found = []\<rparr>))"
  by (simp add: new_game_def Let_def split: prod.split)

lemma store_okD:
  assumes "store_ok G S" and "S sid = Some gs"
  shows "length sid = 32"
    and "targets gs = five_letter_anagrams (ANAGRAM5_INDEX G) (letters gs)"
    and "distinct (found gs)"
    and "set (found gs) \<subseteq> set (targets gs)"
  using assms unfolding store_ok_def by blast+

lemma store_ok_update:
  assumes "store_ok G S" and "length k = 32"
    and "targets g = five_letter_anagrams (ANAGRAM5_INDEX G) (letters g)"
    and "distinct (found g)" and "set (found g) \<subseteq> set (targets g)"
  shows "store_ok G (S(k \<mapsto> g))"
  unfolding store_ok_def
proof (intro allI impI)
  fix sid gs
  assume h: "(S(k \<mapsto> g)) sid = Some gs"
  show "length sid = 32 \<and> targets gs = five_letter_anagrams (ANAGRAM5_INDEX G) (letters gs)
        \<and> distinct (found gs) \<and> set (found gs) \<subseteq> set (targets gs)"
  proof (cases "sid = k")
    case True
    with h assms show ?thesis by simp
  next
    case False
    with h have "S sid = Some gs" by simp
    then show ?thesis using store_okD [OF assms(1)] by blast
  qed
qed

lemma new_game_store_ok:
  assumes "store_ok G S" and "new_game G client rnd S = (r, S')"
  shows "store_ok G S'"
proof -
  obtain t l where
    "S' = S(uuid4_hex (uuid_draw rnd) \<mapsto>
          \<lparr>topic = t, letters = l, scrambled = scramble (shuffle_draw rnd) l,
           targets = five_letter_anagrams (ANAGRAM5_INDEX G) l, found = []\<rparr>)"
    using new_game_shape [of G client rnd S] assms(2) by auto
  with assms(1) show ?thesis
    by (simp add: store_ok_update length_uuid4_hex)
qed

lemma guess_cases:
  assumes "guess render S data = Inr (r, S')"
  obtains (invalid) "r = Err400 ''invalid session''" and "S' = S"
  | (miss) kvs sid gs where "data = JObj kvs" and "dict_get kvs ''session_id'' = JStr sid"
      and "sid \<noteq> []" and "S sid = Some gs" and "S' = S"
      and "r = Ok200 \<lparr>g_correct = (length (normalized_guess render kvs) = SEED_LEN
                                     \<and> normalized_guess render kvs \<in> set (targets gs)
                                     \<and> signature (normalized_guess render kvs) = letters gs),
                      g_found = found gs,
                      g_remaining = int (length (targets gs)) - int (length (found gs)),
                      g_complete = (length (found gs) = length (targets gs))\<rparr>"
      and "\<not> (length (normalized_guess render kvs) = SEED_LEN
               \<and> normalized_guess render kvs \<in> set (targets gs)
               \<and> signature (normalized_guess render kvs) = letters gs)
           \<or> normalized_guess render kvs \<in> set (found gs)"
  | (hit) kvs sid gs where "data = JObj kvs" and "dict_get kvs ''session_id'' = JStr sid"
      and "sid \<noteq> []" and "S sid = Some gs"
      and "length (normalized_guess render kvs) = SEED_LEN"
      and "normalized_guess render kvs \<in> set (targets gs)"
      and "signature (normalized_guess render kvs) = letters gs"
      and "normalized_guess render kvs \<notin> set (found gs)"
      and "S' = S(sid \<mapsto> gs\<lparr>found := found gs @ [normalized_guess render kvs]\<rparr>)"
      and "r = Ok200 \<lparr>g_correct = True,
                      g_found = found gs @ [normalized_guess render kvs],
                      g_remaining = int (length (targets gs)) - int (length (found gs @ [normalized_guess render kvs])),
                      g_complete = (length (found gs @ [normalized_guess render kvs]) = length (targets gs))\<rparr>"
proof (cases data)
  case (JObj kvs)
  show ?thesis
  proof (cases "dict_get kvs ''session_id''")
    case (JStr sid)
    show ?thesis
    proof (cases "S sid")
      case None
      with assms JObj JStr show ?thesis
        by (intro invalid) (auto simp: guess_def Let_def split: if_splits)
    next
      case (Some gs)
      show ?thesis
      proof (cases "sid = []")
        case True
        with assms JObj JStr show ?thesis
          by (intro invalid) (auto simp: guess_def Let_def)
      next
        case False
        let ?g = "normalized_guess render kvs"
        show ?thesis
        proof (cases "(length ?g = SEED_LEN \<and> ?g \<in> set (targets gs) \<and> signature ?g = letters gs)
                      \<and> ?g \<notin> set (found gs)")
          case True
          with assms JObj JStr Some False show ?thesis
            by (intro hit [of kvs sid gs]) (auto simp: guess_def Let_def)
        next
          case no: False
          with assms JObj JStr Some False show ?thesis
            by (intro miss [of kvs sid gs]) (auto simp: guess_def Let_def)
        qed
      qed
    qed
  qed (use assms JObj in \<open>auto simp: guess_def Let_def split: if_splits intro: invalid\<close>)
qed (use assms in \<open>auto simp: guess_def\<close>)

lemma guess_store_ok:
  assumes "store_ok G S" and "guess render S data = Inr (r, S')"
  shows "store_ok G S'"
  using assms(2)
proof (cases rule: guess_cases)
  case invalid
  with assms(1) show ?thesis by simp
next
  case (miss kvs sid gs)
  with assms(1) show ?thesis by simp
next
  case (hit kvs sid gs)
  note ok = store_okD [OF assms(1) hit(4)]
  have "store_ok G (S(sid \<mapsto> gs\<lparr>found := found gs @ [normalized_guess render kvs]\<rparr>))"
  proof (rule store_ok_update [OF assms(1)])
    show "length sid = 32" using ok by simp
    show "targets (gs\<lparr>found := found gs @ [normalized_guess render kvs]\<rparr>) =
          five_letter_anagrams (ANAGRAM5_INDEX G)
            (letters (gs\<lparr>found := found gs @ [normalized_guess render kvs]\<rparr>))"
      using ok by simp
    show "distinct (found (gs\<lparr>found := found gs @ [normalized_guess render kvs]\<rparr>))"
      using ok hit(8) by auto
    show "set (found (gs\<lparr>found := found gs @ [normalized_guess render kvs]\<rparr>))
          \<subseteq> set (targets (gs\<lparr>found := found gs @ [normalized_guess render kvs]\<rparr>))"
      using ok hit(6) by auto
  qed
  with hit(9) show ?thesis by simp
qed

lemma reachable_store_ok: "reachable G render S \<Longrightarrow> store_ok G S"
proof (induction rule: reachable.induct)
  case start
  show ?case by (simp add: store_ok_def)
next
  case (after_new S client rnd r S')
  then show ?case by (blast intro: new_game_store_ok)
next
  case (after_guess S data r S')
  then show ?case by (blast intro: guess_store_ok)
qed



lemma startup_fields:
  "FIVE_WORDS (startup tw zipf mz dis) = fst (build_five_index tw zipf mz)"
  "ANAGRAM5_INDEX (startup tw zipf mz dis) = snd (build_five_index tw zipf mz)"
  "MIN_ZIPF (startup tw zipf mz dis) = mz"
  "zipf_frequency (startup tw zipf mz dis) = zipf"
  "DISABLE_LLM (startup tw zipf mz dis) = dis"
  by (simp_all add: startup_def split_beta)

lemma reachable_targets:
  assumes "reachable (startup tw zipf mz dis) render S" and "S sid = Some gs"
  shows "sid \<noteq> []"
    and "distinct (targets gs)"
    and "distinct (found gs)"
    and "set (found gs) \<subseteq> set (targets gs)"
    and "w \<in> set (targets gs) \<Longrightarrow> length w = SEED_LEN \<and> signature w = letters gs"
proof -
  note ok = store_okD [OF reachable_store_ok [OF assms(1)] assms(2)]
  from ok(1) show "sid \<noteq> []" by auto
  from ok show "distinct (found gs)" by simp
  from ok show "set (found gs) \<subseteq> set (targets gs)" by simp
  have t: "targets gs = five_letter_anagrams (snd (build_five_index tw zipf mz)) (letters gs)"
    using ok(2) by (simp add: startup_fields)
  show "distinct (targets gs)"
    unfolding t using anagrams_distinct_sorted by blast
  show "length w = SEED_LEN \<and> signature w = letters gs" if "w \<in> set (targets gs)"
    using that five_words_props [of w tw zipf mz] unfolding t anagrams_set by simp
qed

lemma guess_hit:
  assumes "S sid = Some gs" and "sid \<noteq> []" and "dict_get kvs ''session_id'' = JStr sid"
    and "normalized_guess render kvs = w"
    and "length w = SEED_LEN" and "w \<in> set (targets gs)" and "signature w = letters gs"
  shows "guess render S (JObj kvs) =
           Inr (Ok200 \<lparr>g_correct = True,
                       g_found = (if w \<in> set (found gs) then found gs else found gs @ [w]),
                       g_remaining = int (length (targets gs))
                          - int (length (if w \<in> set (found gs) then found gs else found gs @ [w])),
                       g_complete = (length (if w \<in> set (found gs) then found gs else found gs @ [w])
                                      = length (targets gs))\<rparr>,
                if w \<in> set (found gs) then S else S(sid \<mapsto> gs\<lparr>found := found gs @ [w]\<rparr>))"
  using assms by (simp add: guess_def Let_def)

lemma guess_miss:
  assumes "S sid = Some gs" and "sid \<noteq> []" and "dict_get kvs ''session_id'' = JStr sid"
    and "normalized_guess render kvs = w"
    and "length w \<noteq> SEED_LEN \<or> w \<notin> set (targets gs) \<or> signature w \<noteq> letters gs"
  shows "guess render S (JObj kvs) =
           Inr (Ok200 \<lparr>g_correct = False, g_found = found gs,
                       g_remaining = int (length (targets gs)) - int (length (found gs)),
                       g_complete = (length (found gs) = length (targets gs))\<rparr>, S)"
  using assms by (auto simp: guess_def Let_def)

text \<open>
  C1. In a session of a reachable store, a guess whose normalized form (lowercased, then
  stripped) is a target \<open>w\<close> not yet in \<open>found\<close> is answered with \<open>correct = True\<close> and
  appends \<open>w\<close> to \<open>found\<close>, which grows by exactly one; a further guess with the same
  normalized form (the same text or, say, its upper-case spelling) is answered with
  \<open>correct = True\<close> again and leaves \<open>found\<close> and the store as they are.
\<close>

theorem guess_target_first_then_repeat:
  assumes "reachable (startup top_words zipf min_zipf disable_llm) render S"
    and "S sid = Some gs"
    and "dict_get kvs ''session_id'' = JStr sid" and "normalized_guess render kvs = w"
    and "dict_get kvs2 ''session_id'' = JStr sid" and "normalized_guess render kvs2 = w"
    and "w \<in> set (targets gs)" and "w \<notin> set (found gs)"
  shows "guess render S (JObj kvs) =
           Inr (Ok200 \<lparr>g_correct = True, g_found = found gs @ [w],
                       g_remaining = int (length (targets gs)) - int (length (found gs @ [w])),
                       g_complete = (length (found gs @ [w]) = length (targets gs))\<rparr>,
                S(sid \<mapsto> gs\<lparr>found := found gs @ [w]\<rparr>))
       \<and> length (found gs @ [w]) = length (found gs) + 1
       \<and> guess render (S(sid \<mapsto> gs\<lparr>found := found gs @ [w]\<rparr>)) (JObj kvs2) =
           Inr (Ok200 \<lparr>g_correct = True, g_found = found gs @ [w],
                       g_remaining = int (length (targets gs)) - int (length (found gs @ [w])),
                       g_complete = (length (found gs @ [w]) = length (targets gs))\<rparr>,
                S(sid \<mapsto> gs\<lparr>found := found gs @ [w]\<rparr>))"
proof -
  note r = reachable_targets [OF assms(1,2)]
  have w: "length w = SEED_LEN" "signature w = letters gs"
    using r(5) [OF assms(7)] by simp_all
  let ?gs' = "gs\<lparr>found := found gs @ [w]\<rparr>"
  have first: "guess render S (JObj kvs) =
           Inr (Ok200 \<lparr>g_correct = True, g_found = found gs @ [w],
                       g_remaining = int (length (targets gs)) - int (length (found gs @ [w])),
                       g_complete = (length (found gs @ [w]) = length (targets gs))\<rparr>,
                S(sid \<mapsto> ?gs'))"
    using guess_hit [where S = S and sid = sid and gs = gs and kvs = kvs and render = render and w = w]
      assms(2,3,4,7,8) r(1) w by simp
  have second: "guess render (S(sid \<mapsto> ?gs')) (JObj kvs2) =
           Inr (Ok200 \<lparr>g_correct = True, g_found = found gs @ [w],
                       g_remaining = int (length (targets gs)) - int (length (found gs @ [w])),
                       g_complete = (length (found gs @ [w]) = length (targets gs))\<rparr>,
                S(sid \<mapsto> ?gs'))"
    using guess_hit [where S = "S(sid \<mapsto> ?gs')" and sid = sid and gs = ?gs' and kvs = kvs2
        and render = render and w = w]
      assms(5,6,7) r(1) w by simp
  from first second show ?thesis by simp
qed

text \<open>
  C3. In every session, a guess whose normalized form does not have length 5, or is not
  a member of \<open>targets\<close>, or does not have the session's letters as its signature, is
  answered with \<open>correct = False\<close>, and the store (with the session's \<open>found\<close>) is unchanged.
\<close>

theorem guess_rejects_non_target:
  assumes "S sid = Some gs" and "sid \<noteq> []"
    and "dict_get kvs ''session_id'' = JStr sid" and "normalized_guess render kvs = g"
    and "length g \<noteq> 5 \<or> g \<notin> set (targets gs) \<or> signature g \<noteq> letters gs"
  shows "guess render S (JObj kvs) =
           Inr (Ok200 \<lparr>g_correct = False, g_found = found gs,
                       g_remaining = int (length (targets gs)) - int (length (found gs)),
                       g_complete = (length (found gs) = length (targets gs))\<rparr>, S)"
  using guess_miss [where S = S and sid = sid and gs = gs and kvs = kvs and render = render and w = g]
    assms by (simp add: SEED_LEN_def)

section \<open>The concrete run, evaluated\<close>

lemma ex_G_fields:
  "FIVE_WORDS ex_G = [''aster'', ''rates'', ''stare'', ''tears'', ''rates'']"
  "ANAGRAM5_INDEX ex_G = snd (build_five_index ex_words ex_zipf ex_min_zipf)"
  "DISABLE_LLM ex_G = True"
  by (simp_all add: ex_G_def startup_fields ex_five)

lemma ex_new_game:
  "new_game ex_G client ex_rnd Map.empty =
     (Ok200 \<lparr>n_session_id = uuid4_hex 7, n_topic = ''animals'',
             n_scrambled = scramble (\<lambda>i. 0) ''aerst'', n_letters = ''aerst'',
             n_answer_count = 4\<rparr>, ex_S)"
  by (simp add: new_game_def ask_tinyllama_topic_and_word_def fallback_topic_word_def ex_G_fields
      random_choice_def TOPICS_def ex_rnd_def SEED_LEN_def five_letter_anagrams_def ex_bucket
      ex_S_def ex_gs_def Let_def)

lemma ex_reachable: "reachable ex_G render ex_S"
  by (rule after_new [OF start ex_new_game])

lemma ex_S_lookup:
  "ex_S (uuid4_hex 7) = Some ex_gs"
  "ex_S ''nonexistent'' = None"
  "ex_S [] = None"
proof -
  have "''nonexistent'' \<noteq> uuid4_hex 7"
  proof
    assume "''nonexistent'' = uuid4_hex 7"
    then have "length ''nonexistent'' = length (uuid4_hex 7)" by (rule arg_cong)
    then show False by (simp add: length_uuid4_hex)
  qed
  moreover have "[] \<noteq> uuid4_hex 7"
    using uuid4_hex_nonempty [of 7] by simp
  ultimately have "''nonexistent'' \<noteq> uuid4_hex 7" "[] \<noteq> uuid4_hex 7"
    by simp_all
  then show "ex_S (uuid4_hex 7) = Some ex_gs" "ex_S ''nonexistent'' = None" "ex_S [] = None"
    by (simp_all add: ex_S_def)
qed

lemma ex_body_fields:
  "dict_get (ex_body v) ''session_id'' = JStr (uuid4_hex 7)"
  "dict_get_default (ex_body v) ''guess'' d = v"
  by (simp_all add: ex_body_def dict_get_def dict_get_default_def)

lemma ex_normalized:
  "normalized_guess ex_render (ex_body (JStr ''rates'')) = ''rates''"
  "normalized_guess ex_render (ex_body (JStr '' RATES '')) = ''rates''"
  "normalized_guess ex_render (ex_body (JStr ''tiger'')) = ''tiger''"
  "normalized_guess ex_render (ex_body JNull) = ''none''"
  by (simp_all add: normalized_guess_def ex_body_fields strip_def lower_def char_lower_def
      char_isspace_def char_of_eq_iff)

theorem guess_target_first_then_repeat_witness:
  "guess ex_render ex_S (JObj (ex_body (JStr ''rates''))) =
     Inr (Ok200 \<lparr>g_correct = True, g_found = [''rates''], g_remaining = 3, g_complete = False\<rparr>,
          ex_S(uuid4_hex 7 \<mapsto> ex_gs\<lparr>found := [''rates'']\<rparr>))
   \<and> guess ex_render (ex_S(uuid4_hex 7 \<mapsto> ex_gs\<lparr>found := [''rates'']\<rparr>))
         (JObj (ex_body (JStr '' RATES ''))) =
     Inr (Ok200 \<lparr>g_correct = True, g_found = [''rates''], g_remaining = 3, g_complete = False\<rparr>,
          ex_S(uuid4_hex 7 \<mapsto> ex_gs\<lparr>found := [''rates'']\<rparr>))"
  using guess_target_first_then_repeat [where top_words = ex_words and zipf = ex_zipf
      and min_zipf = ex_min_zipf and disable_llm = True and render = ex_render and S = ex_S
      and sid = "uuid4_hex 7" and gs = ex_gs and kvs = "ex_body (JStr ''rates'')"
      and ?kvs2.0 = "ex_body (JStr '' RATES '')" and w = "''rates''"]
    ex_reachable [of ex_render] ex_S_lookup(1) ex_body_fields(1) ex_normalized(1,2)
  by (simp add: ex_G_def [symmetric] ex_gs_def)

theorem guess_rejects_non_target_witness:
  "guess ex_render ex_S (JObj (ex_body (JStr ''tiger''))) =
     Inr (Ok200 \<lparr>g_correct = False, g_found = [], g_remaining = 4, g_complete = False\<rparr>, ex_S)
   \<and> guess ex_render ex_S (JObj (ex_body JNull)) =
     Inr (Ok200 \<lparr>g_correct = False, g_found = [], g_remaining = 4, g_complete = False\<rparr>, ex_S)"
  using guess_rejects_non_target [where S = ex_S and sid = "uuid4_hex 7" and gs = ex_gs
      and kvs = "ex_body (JStr ''tiger'')" and render = ex_render and g = "''tiger''"]
    guess_rejects_non_target [where S = ex_S and sid = "uuid4_hex 7" and gs = ex_gs
      and kvs = "ex_body JNull" and render = ex_render and g = "''none''"]
    ex_S_lookup(1) uuid4_hex_nonempty [of 7] ex_body_fields(1) ex_normalized(3,4)
  by (simp add: ex_gs_def)


section \<open>Answers, the store and the pickers\<close>


text \<open>
  C4. In a reachable store, every answer of \<open>guess\<close> with a body reports the session's
  \<open>found\<close> after the guess, \<open>remaining = |targets| - |found|\<close> and
  \<open>complete = (|found| = |targets|)\<close>; when \<open>found\<close> then holds all of \<open>targets\<close>, in
  whatever order they were found, \<open>complete\<close> is true and \<open>remaining\<close> is 0.
\<close>

theorem guess_reply_counts:
  assumes "reachable (startup top_words zipf min_zipf disable_llm) render S"
    and "guess render S (JObj kvs) = Inr (Ok200 r, S')"
  shows "\<exists>sid gs'. dict_get kvs ''session_id'' = JStr sid \<and> S' sid = Some gs'
           \<and> g_found r = found gs'
           \<and> g_remaining r = int (length (targets gs')) - int (length (found gs'))
           \<and> g_complete r = (length (found gs') = length (targets gs'))
           \<and> (set (found gs') = set (targets gs') \<longrightarrow> g_complete r \<and> g_remaining r = 0)"
proof -
  have reach': "reachable (startup top_words zipf min_zipf disable_llm) render S'"
    by (rule after_guess [OF assms])
  have len: "length (found gs') = length (targets gs')"
    if "S' sid = Some gs'" and "set (found gs') = set (targets gs')" for sid gs'
  proof -
    note t = reachable_targets [OF reach' that(1)]
    have "card (set (found gs')) = card (set (targets gs'))" using that(2) by simp
    then show ?thesis using t(2,3) by (simp add: distinct_card)
  qed
  from assms(2) show ?thesis
  proof (cases rule: guess_cases)
    case invalid
    then show ?thesis by simp
  next
    case (miss kvs0 sid gs)
    then have "S' sid = Some gs" by simp
    with miss len [OF this] show ?thesis by auto
  next
    case (hit kvs0 sid gs)
    let ?gs' = "gs\<lparr>found := found gs @ [normalized_guess render kvs0]\<rparr>"
    have "S' sid = Some ?gs'" using hit by simp
    with hit len [OF this] show ?thesis by auto
  qed
qed

text \<open>
  C5. A \<open>guess\<close> request whose \<open>session_id\<close> field is absent or falsy, or is a hashable
  value that is not the key of a session, and a \<open>state\<close> request whose \<open>session_id\<close>
  parameter is absent or not the key of a session, are answered with status 400 and
  \<open>{error: "invalid session"}\<close>, and the store is unchanged.
\<close>

theorem invalid_session_rejected:
  "((\<not> truthy (dict_get kvs ''session_id'')
      \<or> (hashable (dict_get kvs ''session_id'')
          \<and> (\<forall>s. dict_get kvs ''session_id'' = JStr s \<longrightarrow> S s = None)))
     \<longrightarrow> guess render S (JObj kvs) = Inr (Err400 ''invalid session'', S))
   \<and> (S (case arg of None \<Rightarrow> [] | Some s \<Rightarrow> s) = None
     \<longrightarrow> state S arg = (Err400 ''invalid session'', S))"
proof (intro conjI impI)
  assume h: "\<not> truthy (dict_get kvs ''session_id'')
      \<or> (hashable (dict_get kvs ''session_id'')
          \<and> (\<forall>s. dict_get kvs ''session_id'' = JStr s \<longrightarrow> S s = None))"
  show "guess render S (JObj kvs) = Inr (Err400 ''invalid session'', S)"
  proof (cases "truthy (dict_get kvs ''session_id'')")
    case False
    then show ?thesis by (simp add: guess_def Let_def)
  next
    case True
    with h have "lookup_session S (dict_get kvs ''session_id'') = Inr None"
      by (cases "dict_get kvs ''session_id''") auto
    with True show ?thesis by (simp add: guess_def Let_def)
  qed
next
  assume "S (case arg of None \<Rightarrow> [] | Some s \<Rightarrow> s) = None"
  then show "state S arg = (Err400 ''invalid session'', S)"
    by (simp add: state_def)
qed

text \<open>
  A non-empty list or dict in the \<open>session_id\<close> field is not an identifier of that
  kind: the membership test raises on it, and the store is not written.
\<close>

lemma guess_unhashable_session_id:
  "guess render S (JObj [(''session_id'', JArr [JStr ''x'']), (''guess'', JStr ''rates'')])
     = Inl TypeError"
  by (simp add: guess_def dict_get_def Let_def)

text \<open>
  C8. In every reachable store, the \<open>found\<close> of every session is free of duplicates and
  within \<open>targets\<close>; \<open>new_game\<close> stores its session with an empty \<open>found\<close>; and a
  \<open>guess\<close> changes nothing in a session but \<open>found\<close>, which it leaves as it is or
  extends at its end by one target that was not in it.
\<close>

theorem found_grows_within_targets:
  assumes "reachable G render S"
  shows "(\<forall>sid gs. S sid = Some gs \<longrightarrow> distinct (found gs) \<and> set (found gs) \<subseteq> set (targets gs))
       \<and> (\<forall>client rnd r S'. new_game G client rnd S = (r, S') \<longrightarrow>
             (\<exists>gs. S' (uuid4_hex (uuid_draw rnd)) = Some gs \<and> found gs = []))
       \<and> (\<forall>data r S' sid gs. guess render S data = Inr (r, S') \<longrightarrow> S sid = Some gs \<longrightarrow>
             (\<exists>gs'. S' sid = Some gs' \<and> gs' = gs\<lparr>found := found gs'\<rparr>
                \<and> (found gs' = found gs
                    \<or> (\<exists>w. found gs' = found gs @ [w] \<and> w \<in> set (targets gs) \<and> w \<notin> set (found gs)))))"
proof (intro conjI allI impI)
  fix sid gs
  assume "S sid = Some gs"
  from store_okD(3,4) [OF reachable_store_ok [OF assms] this]
  show "distinct (found gs)" and "set (found gs) \<subseteq> set (targets gs)" .
next
  fix client rnd r S'
  assume "new_game G client rnd S = (r, S')"
  with new_game_shape [of G client rnd S]
  show "\<exists>gs. S' (uuid4_hex (uuid_draw rnd)) = Some gs \<and> found gs = []"
    by auto
next
  fix data r S' sid gs
  assume g: "guess render S data = Inr (r, S')" and s: "S sid = Some gs"
  from g show "\<exists>gs'. S' sid = Some gs' \<and> gs' = gs\<lparr>found := found gs'\<rparr>
                \<and> (found gs' = found gs
                    \<or> (\<exists>w. found gs' = found gs @ [w] \<and> w \<in> set (targets gs) \<and> w \<notin> set (found gs)))"
  proof (cases rule: guess_cases)
    case invalid
    with s show ?thesis by simp
  next
    case (miss kvs sid0 gs0)
    with s show ?thesis by simp
  next
    case (hit kvs sid0 gs0)
    show ?thesis
    proof (cases "sid = sid0")
      case True
      with hit s show ?thesis by auto
    next
      case False
      with hit s show ?thesis by simp
    qed
  qed
qed

text \<open>
  C9. \<open>state\<close> returns the store as it received it, and a second call on the returned
  store gives the same answer; for a stored session the answer is its topic, scrambled
  letters, letters, found list and number of targets.
\<close>

theorem state_read_only_idempotent:
  assumes "state S arg = (r, S')"
  shows "S' = S \<and> state S' arg = (r, S')
       \<and> (\<forall>gs. S (case arg of None \<Rightarrow> [] | Some s \<Rightarrow> s) = Some gs \<longrightarrow>
            r = Ok200 \<lparr>s_topic = topic gs, s_scrambled = scrambled gs, s_letters = letters gs,
                       s_found = found gs, s_total = length (targets gs)\<rparr>)"
  using assms by (auto simp: state_def Let_def split: option.splits)

lemma random_choice_in: "xs \<noteq> [] \<Longrightarrow> random_choice r xs \<in> set xs"
  by (simp add: random_choice_def)

lemma tiger_valid: "isalpha ''tiger'' \<and> length ''tiger'' = SEED_LEN \<and> lower ''tiger'' = ''tiger''"
  by (simp add: isalpha_def char_isalpha_def lower_def char_lower_def SEED_LEN_def)

lemma fallback_word_cases:
  "(FIVE_WORDS G \<noteq> [] \<and> snd (fallback_topic_word G d) \<in> set (FIVE_WORDS G))
   \<or> (FIVE_WORDS G = [] \<and> snd (fallback_topic_word G d) = ''tiger'')"
  by (simp add: fallback_topic_word_def Let_def random_choice_in)

lemma fallback_word_valid:
  "isalpha (snd (fallback_topic_word (startup tw zipf mz dis) d))
   \<and> length (snd (fallback_topic_word (startup tw zipf mz dis) d)) = SEED_LEN
   \<and> lower (snd (fallback_topic_word (startup tw zipf mz dis) d))
       = snd (fallback_topic_word (startup tw zipf mz dis) d)"
  using fallback_word_cases [of "startup tw zipf mz dis" d] tiger_valid
    five_words_props [of "snd (fallback_topic_word (startup tw zipf mz dis) d)" tw zipf mz]
  by (auto simp: startup_fields)

lemma llm_rounds_count: "fst (llm_rounds G client is) \<le> length is"
  by (induction "is") (auto simp: Let_def split: reply.splits prod.splits)

lemma llm_rounds_valid:
  "llm_rounds G client is = (n, Some (t, w)) \<Longrightarrow>
     isalpha w \<and> length w = SEED_LEN \<and> lower w = w"
  by (induction "is" arbitrary: n)
     (auto simp: Let_def lower_idem split: reply.splits prod.splits if_splits)

lemma upt_0_3: "[0..<3] = [0, Suc 0, Suc (Suc 0)]"
  by (simp add: numeral_3_eq_3)

lemma llm_rounds_Cons:
  "llm_rounds G client (i # rest) =
     (case round_pair G (client i) of
        Some p \<Rightarrow> (Suc 0, Some p)
      | None \<Rightarrow> (Suc (fst (llm_rounds G client rest)), snd (llm_rounds G client rest)))"
  by (simp add: round_pair_def Let_def split_beta split: reply.splits)

lemma llm_rounds_three:
  "llm_rounds G client [0..<3] =
     (case round_pair G (client 0) of
        Some p \<Rightarrow> (1, Some p)
      | None \<Rightarrow>
          (case round_pair G (client 1) of
             Some p \<Rightarrow> (2, Some p)
           | None \<Rightarrow>
               (case round_pair G (client 2) of
                  Some p \<Rightarrow> (3, Some p)
                | None \<Rightarrow> (3, None))))"
  unfolding upt_0_3 llm_rounds_Cons
  by (simp add: numeral_2_eq_2 numeral_3_eq_3 split: option.splits)

lemma ask_rounds:
  assumes "\<not> DISABLE_LLM G" and "FIVE_WORDS G \<noteq> []"
  shows "ask_tinyllama_topic_and_word G client d =
     (case round_pair G (client 0) of
        Some p \<Rightarrow> (1, p)
      | None \<Rightarrow>
          (case round_pair G (client 1) of
             Some p \<Rightarrow> (2, p)
           | None \<Rightarrow>
               (case round_pair G (client 2) of
                  Some p \<Rightarrow> (3, p)
                | None \<Rightarrow> (3, fallback_topic_word G d))))"
  using assms
  by (simp add: ask_tinyllama_topic_and_word_def llm_rounds_three split: option.splits)

lemma ask_fallback_direct:
  "DISABLE_LLM G \<or> FIVE_WORDS G = [] \<Longrightarrow>
     ask_tinyllama_topic_and_word G client d = (0, fallback_topic_word G d)"
  by (auto simp: ask_tinyllama_topic_and_word_def)

lemma picker_word_shape:
  "fst (ask_tinyllama_topic_and_word (startup tw zipf mz dis) client d) \<le> 3
   \<and> isalpha (snd (snd (ask_tinyllama_topic_and_word (startup tw zipf mz dis) client d)))
   \<and> length (snd (snd (ask_tinyllama_topic_and_word (startup tw zipf mz dis) client d))) = 5
   \<and> lower (snd (snd (ask_tinyllama_topic_and_word (startup tw zipf mz dis) client d)))
       = snd (snd (ask_tinyllama_topic_and_word (startup tw zipf mz dis) client d))"
proof -
  let ?G = "startup tw zipf mz dis"
  obtain n res where l: "llm_rounds ?G client [0..<3] = (n, res)"
    by (cases "llm_rounds ?G client [0..<3]")
  have n: "n \<le> 3"
    using llm_rounds_count [of ?G client "[0..<3]"] l by simp
  show ?thesis
  proof (cases "DISABLE_LLM ?G \<or> FIVE_WORDS ?G = []")
    case True
    then show ?thesis
      using fallback_word_valid [of tw zipf mz dis d]
      by (simp add: ask_tinyllama_topic_and_word_def SEED_LEN_def)
  next
    case False
    show ?thesis
    proof (cases res)
      case None
      with False l n show ?thesis
        using fallback_word_valid [of tw zipf mz dis d]
        by (simp add: ask_tinyllama_topic_and_word_def SEED_LEN_def)
    next
      case (Some p)
      obtain t w where p: "p = (t, w)" by (cases p)
      from llm_rounds_valid [of ?G client "[0..<3]" n t w] l Some p
      have "isalpha w \<and> length w = SEED_LEN \<and> lower w = w" by simp
      with False l n Some p show ?thesis
        by (simp add: ask_tinyllama_topic_and_word_def SEED_LEN_def)
    qed
  qed
qed

text \<open>
  C7. Whatever the rounds of the external model give (an exception, unusable text, an
  invalid word), \<open>ask_tinyllama_topic_and_word\<close> makes at most 3 requests and returns a
  pair whose word is alphabetic, has exactly 5 characters and is lowercase. With the model
  switched off or an empty vocabulary it makes no request and returns the fallback's pair;
  otherwise it returns the pair of the first round that is accepted, and when none of the
  three rounds is accepted it returns the fallback's pair after the third request.
\<close>

theorem picker_returns_valid_word:
  "fst (ask_tinyllama_topic_and_word (startup top_words zipf min_zipf disable_llm) client d) \<le> 3
   \<and> isalpha (snd (snd (ask_tinyllama_topic_and_word (startup top_words zipf min_zipf disable_llm) client d)))
   \<and> length (snd (snd (ask_tinyllama_topic_and_word (startup top_words zipf min_zipf disable_llm) client d))) = 5
   \<and> lower (snd (snd (ask_tinyllama_topic_and_word (startup top_words zipf min_zipf disable_llm) client d)))
       = snd (snd (ask_tinyllama_topic_and_word (startup top_words zipf min_zipf disable_llm) client d))
   \<and> (DISABLE_LLM (startup top_words zipf min_zipf disable_llm)
        \<or> FIVE_WORDS (startup top_words zipf min_zipf disable_llm) = [] \<longrightarrow>
      ask_tinyllama_topic_and_word (startup top_words zipf min_zipf disable_llm) client d
        = (0, fallback_topic_word (startup top_words zipf min_zipf disable_llm) d))
   \<and> (\<not> DISABLE_LLM (startup top_words zipf min_zipf disable_llm)
        \<and> FIVE_WORDS (startup top_words zipf min_zipf disable_llm) \<noteq> []
        \<and> round_pair (startup top_words zipf min_zipf disable_llm) (client 0) = None
        \<and> round_pair (startup top_words zipf min_zipf disable_llm) (client 1) = None
        \<and> round_pair (startup top_words zipf min_zipf disable_llm) (client 2) = None \<longrightarrow>
      ask_tinyllama_topic_and_word (startup top_words zipf min_zipf disable_llm) client d
        = (3, fallback_topic_word (startup top_words zipf min_zipf disable_llm) d))
   \<and> (\<not> DISABLE_LLM (startup top_words zipf min_zipf disable_llm)
        \<and> FIVE_WORDS (startup top_words zipf min_zipf disable_llm) \<noteq> [] \<longrightarrow>
      ask_tinyllama_topic_and_word (startup top_words zipf min_zipf disable_llm) client d
        = (case round_pair (startup top_words zipf min_zipf disable_llm) (client 0) of
             Some p \<Rightarrow> (1, p)
           | None \<Rightarrow>
               (case round_pair (startup top_words zipf min_zipf disable_llm) (client 1) of
                  Some p \<Rightarrow> (2, p)
                | None \<Rightarrow>
                    (case round_pair (startup top_words zipf min_zipf disable_llm) (client 2) of
                       Some p \<Rightarrow> (3, p)
                     | None \<Rightarrow> (3, fallback_topic_word (startup top_words zipf min_zipf disable_llm) d)))))"
proof -
  let ?G = "startup top_words zipf min_zipf disable_llm"
  note shape = picker_word_shape [of top_words zipf min_zipf disable_llm client d]
  have direct: "DISABLE_LLM ?G \<or> FIVE_WORDS ?G = [] \<longrightarrow>
      ask_tinyllama_topic_and_word ?G client d = (0, fallback_topic_word ?G d)"
    using ask_fallback_direct [of ?G client d] by blast
  have rounds: "\<not> DISABLE_LLM ?G \<and> FIVE_WORDS ?G \<noteq> [] \<longrightarrow>
      ask_tinyllama_topic_and_word ?G client d
        = (case round_pair ?G (client 0) of
             Some p \<Rightarrow> (1, p)
           | None \<Rightarrow>
               (case round_pair ?G (client 1) of
                  Some p \<Rightarrow> (2, p)
                | None \<Rightarrow>
                    (case round_pair ?G (client 2) of
                       Some p \<Rightarrow> (3, p)
                     | None \<Rightarrow> (3, fallback_topic_word ?G d))))"
    using ask_rounds [of ?G client d] by blast
  have exhausted: "\<not> DISABLE_LLM ?G \<and> FIVE_WORDS ?G \<noteq> []
        \<and> round_pair ?G (client 0) = None \<and> round_pair ?G (client 1) = None
        \<and> round_pair ?G (client 2) = None \<longrightarrow>
      ask_tinyllama_topic_and_word ?G client d = (3, fallback_topic_word ?G d)"
    using ask_rounds [of ?G client d] by simp
  from shape direct exhausted rounds show ?thesis by blast
qed

lemma ex_llm_fields:
  "FIVE_WORDS ex_G_llm = [''aster'', ''rates'', ''stare'', ''tears'', ''rates'']"
  "DISABLE_LLM ex_G_llm = False"
  "zipf_frequency ex_G_llm = ex_zipf" "MIN_ZIPF ex_G_llm = ex_min_zipf"
  by (simp_all add: ex_G_llm_def startup_fields ex_five)

lemma ex_client_bad_rounds:
  "round_pair ex_G_llm (ex_client_bad 0) = None"
  "round_pair ex_G_llm (ex_client_bad 1) = None"
  "round_pair ex_G_llm (ex_client_bad 2) = None"
  by (simp_all add: round_pair_def ex_llm_fields numeral_2_eq_2 strip_def lower_def char_lower_def
      char_isspace_def char_of_eq_iff isalpha_def char_isalpha_def SEED_LEN_def ex_zipf_def
      ex_min_zipf_def)

lemma ex_client_rounds:
  "round_pair ex_G_llm (ex_client 0) = None"
  "round_pair ex_G_llm (ex_client 1) = None"
  "round_pair ex_G_llm (ex_client 2) = Some (''Music'', ''stare'')"
  by (simp_all add: round_pair_def ex_llm_fields numeral_2_eq_2 strip_def lower_def char_lower_def
      char_isspace_def char_of_eq_iff isalpha_def char_isalpha_def SEED_LEN_def ex_zipf_def
      ex_min_zipf_def)

theorem picker_returns_valid_word_witness:
  "ask_tinyllama_topic_and_word ex_G_llm ex_client_bad (0, 0) = (3, fallback_topic_word ex_G_llm (0, 0))
   \<and> fallback_topic_word ex_G_llm (0, 0) = (''animals'', ''aster'')
   \<and> isalpha ''aster'' \<and> length ''aster'' = 5 \<and> lower ''aster'' = ''aster''
   \<and> ask_tinyllama_topic_and_word ex_G_llm ex_client (0, 0) = (3, (''Music'', ''stare''))
   \<and> ask_tinyllama_topic_and_word ex_G ex_client (0, 0) = (0, fallback_topic_word ex_G (0, 0))"
proof -
  have fb: "fallback_topic_word ex_G_llm (0, 0) = (''animals'', ''aster'')"
    by (simp add: fallback_topic_word_def ex_llm_fields random_choice_def TOPICS_def)
  note bad = picker_returns_valid_word [of ex_words ex_zipf ex_min_zipf False ex_client_bad "(0, 0)"]
  note good = picker_returns_valid_word [of ex_words ex_zipf ex_min_zipf False ex_client "(0, 0)"]
  note off = picker_returns_valid_word [of ex_words ex_zipf ex_min_zipf True ex_client "(0, 0)"]
  have 1: "ask_tinyllama_topic_and_word ex_G_llm ex_client_bad (0, 0)
             = (3, fallback_topic_word ex_G_llm (0, 0))"
    using bad ex_client_bad_rounds ex_llm_fields(1,2) unfolding ex_G_llm_def [symmetric] by simp
  have 2: "isalpha ''aster'' \<and> length ''aster'' = 5 \<and> lower ''aster'' = ''aster''"
    using bad 1 fb unfolding ex_G_llm_def [symmetric] by simp
  have 3: "ask_tinyllama_topic_and_word ex_G_llm ex_client (0, 0) = (3, (''Music'', ''stare''))"
    using good ex_client_rounds ex_llm_fields(1,2) unfolding ex_G_llm_def [symmetric] by simp
  have 4: "ask_tinyllama_topic_and_word ex_G ex_client (0, 0) = (0, fallback_topic_word ex_G (0, 0))"
    using off ex_G_fields(3) unfolding ex_G_def [symmetric] by simp
  from 1 fb 2 3 4 show ?thesis by simp
qed


lemma build_five_index_empty:
  "fst (build_five_index [] zipf mz) = []" "snd (build_five_index [] zipf mz) k = None"
  by (simp_all add: build_five_index_def)

text \<open>
  C6. With the model switched off and an empty vocabulary, \<open>new_game\<close> falls back to the
  word \<open>tiger\<close> and answers without failing, but the index has no bucket for it: the
  session has no targets and \<open>answer_count\<close> is 0.
\<close>

theorem new_game_empty_vocabulary:
  "fst (new_game (startup [] zipf min_zipf True) client rnd S) =
     Ok200 \<lparr>n_session_id = uuid4_hex (uuid_draw rnd),
            n_topic = random_choice (fst (empty_draw rnd)) TOPICS,
            n_scrambled = scramble (shuffle_draw rnd) ''egirt'',
            n_letters = ''egirt'', n_answer_count = 0\<rparr>"
  by (simp add: new_game_def ask_tinyllama_topic_and_word_def fallback_topic_word_def
      startup_fields build_five_index_empty five_letter_anagrams_def SEED_LEN_def Let_def)

text \<open>The same answer for every vocabulary in which no word qualifies.\<close>

lemma new_game_no_five_words:
  assumes "FIVE_WORDS (startup tw zipf mz dis) = []"
  shows "fst (new_game (startup tw zipf mz dis) client rnd S) =
     Ok200 \<lparr>n_session_id = uuid4_hex (uuid_draw rnd),
            n_topic = random_choice (fst (empty_draw rnd)) TOPICS,
            n_scrambled = scramble (shuffle_draw rnd) ''egirt'',
            n_letters = ''egirt'', n_answer_count = 0\<rparr>"
proof -
  have five: "fst (build_five_index tw zipf mz) = []"
    using assms by (simp add: startup_fields)
  have idx: "snd (build_five_index tw zipf mz) k = None" for k
    by (simp add: build_five_index_lookup five)
  show ?thesis
    by (simp add: new_game_def ask_tinyllama_topic_and_word_def fallback_topic_word_def
        startup_fields five idx five_letter_anagrams_def SEED_LEN_def Let_def)
qed

text \<open>With a non-empty vocabulary every new session has at least one target.\<close>

lemma anagrams_of_five_word:
  assumes "w \<in> set (fst (build_five_index tw zipf mz))"
  shows "five_letter_anagrams (snd (build_five_index tw zipf mz)) (sort w) \<noteq> []"
proof -
  have "w \<in> set (five_letter_anagrams (snd (build_five_index tw zipf mz)) (sort w))"
    using assms unfolding anagrams_set by (simp add: signature_def)
  then show ?thesis by auto
qed

lemma new_game_answer_count_pos:
  assumes "FIVE_WORDS (startup tw zipf mz dis) \<noteq> []"
    and "fst (new_game (startup tw zipf mz dis) client rnd S) = Ok200 r"
  shows "1 \<le> n_answer_count r"
proof -
  let ?G = "startup tw zipf mz dis"
  have "snd (fallback_topic_word ?G (empty_draw rnd)) \<in> set (fst (build_five_index tw zipf mz))"
    using fallback_word_cases [of ?G "empty_draw rnd"] assms(1) by (simp add: startup_fields)
  then have "five_letter_anagrams (ANAGRAM5_INDEX ?G) (sort (snd (fallback_topic_word ?G (empty_draw rnd)))) \<noteq> []"
    using anagrams_of_five_word by (simp add: startup_fields)
  with assms(2) have "n_answer_count r \<noteq> 0"
    by (auto simp: new_game_def Let_def split_beta split: if_splits)
  then show ?thesis by simp
qed

lemma ex_normalized_any:
  "normalized_guess render (ex_body (JStr ''rates'')) = ''rates''"
  "normalized_guess render (ex_body (JStr ''stare'')) = ''stare''"
  "normalized_guess render (ex_body (JStr ''aster'')) = ''aster''"
  "normalized_guess render (ex_body (JStr ''tears'')) = ''tears''"
  by (simp_all add: normalized_guess_def ex_body_fields strip_def lower_def char_lower_def
      char_isspace_def char_of_eq_iff)

lemma ex_guess_hit:
  assumes "normalized_guess render (ex_body (JStr w)) = w"
    and "w \<in> set [''aster'', ''rates'', ''stare'', ''tears'']" and "w \<notin> set fnd"
  shows "guess render (Map.empty(uuid4_hex 7 \<mapsto> ex_gs\<lparr>found := fnd\<rparr>)) (JObj (ex_body (JStr w))) =
           Inr (Ok200 \<lparr>g_correct = True, g_found = fnd @ [w],
                       g_remaining = 4 - int (length (fnd @ [w])),
                       g_complete = (length (fnd @ [w]) = 4)\<rparr>,
                Map.empty(uuid4_hex 7 \<mapsto> ex_gs\<lparr>found := fnd @ [w]\<rparr>))"
proof -
  have "length w = SEED_LEN \<and> signature w = ''aerst''"
    using assms(2) by (auto simp: SEED_LEN_def signature_def)
  then show ?thesis
    using guess_hit [where S = "Map.empty(uuid4_hex 7 \<mapsto> ex_gs\<lparr>found := fnd\<rparr>)" and sid = "uuid4_hex 7"
        and gs = "ex_gs\<lparr>found := fnd\<rparr>" and kvs = "ex_body (JStr w)" and render = render and w = w]
      assms uuid4_hex_nonempty [of 7] ex_body_fields(1)
    by (simp add: ex_gs_def numeral_3_eq_3)
qed

lemma ex_reachable3: "reachable ex_G render ex_S3"
proof -
  have s0: "ex_S = Map.empty(uuid4_hex 7 \<mapsto> ex_gs\<lparr>found := []\<rparr>)"
    by (simp add: ex_S_def ex_gs_def)
  have r0: "reachable ex_G render (Map.empty(uuid4_hex 7 \<mapsto> ex_gs\<lparr>found := []\<rparr>))"
    using ex_reachable [of render] s0 by simp
  have r1: "reachable ex_G render (Map.empty(uuid4_hex 7 \<mapsto> ex_gs\<lparr>found := [] @ [''stare'']\<rparr>))"
    by (rule after_guess [OF r0 ex_guess_hit [OF ex_normalized_any(2)]]) simp_all
  have r2: "reachable ex_G render (Map.empty(uuid4_hex 7 \<mapsto> ex_gs\<lparr>found := ([] @ [''stare'']) @ [''aster'']\<rparr>))"
    by (rule after_guess [OF r1 ex_guess_hit [OF ex_normalized_any(3)]]) simp_all
  have r3: "reachable ex_G render
      (Map.empty(uuid4_hex 7 \<mapsto> ex_gs\<lparr>found := (([] @ [''stare'']) @ [''aster'']) @ [''tears'']\<rparr>))"
    by (rule after_guess [OF r2 ex_guess_hit [OF ex_normalized_any(4)]]) simp_all
  then show ?thesis by (simp add: ex_S3_def ex_gs3_def)
qed

lemma ex_guess_last:
  "guess render ex_S3 (JObj (ex_body (JStr ''rates''))) =
     Inr (Ok200 \<lparr>g_correct = True, g_found = [''stare'', ''aster'', ''tears'', ''rates''],
                 g_remaining = 0, g_complete = True\<rparr>,
          Map.empty(uuid4_hex 7 \<mapsto> ex_gs\<lparr>found := [''stare'', ''aster'', ''tears'', ''rates'']\<rparr>))"
  using ex_guess_hit [OF ex_normalized_any(1), of "[''stare'', ''aster'', ''tears'']"]
  by (simp add: ex_S3_def ex_gs3_def)

theorem guess_reply_counts_witness:
  "guess ex_render ex_S3 (JObj (ex_body (JStr ''rates''))) =
     Inr (Ok200 \<lparr>g_correct = True, g_found = [''stare'', ''aster'', ''tears'', ''rates''],
                 g_remaining = 0, g_complete = True\<rparr>,
          Map.empty(uuid4_hex 7 \<mapsto> ex_gs\<lparr>found := [''stare'', ''aster'', ''tears'', ''rates'']\<rparr>))
   \<and> (\<exists>sid gs'. dict_get (ex_body (JStr ''rates'')) ''session_id'' = JStr sid
         \<and> (Map.empty(uuid4_hex 7 \<mapsto> ex_gs\<lparr>found := [''stare'', ''aster'', ''tears'', ''rates'']\<rparr>)) sid = Some gs'
         \<and> set (found gs') = set (targets gs')
         \<and> int (length (targets gs')) - int (length (found gs')) = 0)"
proof -
  have r: "reachable (startup ex_words ex_zipf ex_min_zipf True) ex_render ex_S3"
    using ex_reachable3 [of ex_render] by (simp add: ex_G_def)
  from guess_reply_counts [OF r ex_guess_last [of ex_render]] ex_guess_last [of ex_render]
  show ?thesis
    by (auto simp: ex_body_fields ex_gs_def)
qed

theorem invalid_session_rejected_witness:
  "guess ex_render ex_S (JObj [(''session_id'', JStr ''nonexistent''), (''guess'', JStr ''rates'')])
     = Inr (Err400 ''invalid session'', ex_S)
   \<and> guess ex_render ex_S (JObj [(''guess'', JStr ''rates'')]) = Inr (Err400 ''invalid session'', ex_S)
   \<and> state ex_S (Some ''nonexistent'') = (Err400 ''invalid session'', ex_S)
   \<and> state ex_S None = (Err400 ''invalid session'', ex_S)"
proof -
  have a: "dict_get [(''session_id'', JStr ''nonexistent''), (''guess'', JStr ''rates'')] ''session_id''
             = JStr ''nonexistent''"
    and b: "dict_get [(''guess'', JStr ''rates'')] ''session_id'' = JNull"
    by (simp_all add: dict_get_def)
  from invalid_session_rejected [of "[(''session_id'', JStr ''nonexistent''), (''guess'', JStr ''rates'')]"
      ex_S ex_render "Some ''nonexistent''"]
  have 1: "guess ex_render ex_S (JObj [(''session_id'', JStr ''nonexistent''), (''guess'', JStr ''rates'')])
     = Inr (Err400 ''invalid session'', ex_S)"
    and 3: "state ex_S (Some ''nonexistent'') = (Err400 ''invalid session'', ex_S)"
    by (simp_all add: a ex_S_lookup)
  from invalid_session_rejected [of "[(''guess'', JStr ''rates'')]" ex_S ex_render None]
  have 2: "guess ex_render ex_S (JObj [(''guess'', JStr ''rates'')]) = Inr (Err400 ''invalid session'', ex_S)"
    and 4: "state ex_S None = (Err400 ''invalid session'', ex_S)"
    by (simp_all add: b ex_S_lookup)
  from 1 2 3 4 show ?thesis by simp
qed

theorem found_grows_within_targets_witness:
  "distinct (found ex_gs3) \<and> set (found ex_gs3) \<subseteq> set (targets ex_gs3)
   \<and> found ex_gs3 = [''stare'', ''aster'', ''tears'']
   \<and> (\<exists>gs. snd (new_game ex_G ex_client ex_rnd ex_S3) (uuid4_hex (uuid_draw ex_rnd)) = Some gs
         \<and> found gs = [])
   \<and> (\<exists>gs'. (Map.empty(uuid4_hex 7 \<mapsto> ex_gs\<lparr>found := [''stare'', ''aster'', ''tears'', ''rates'']\<rparr>))
                  (uuid4_hex 7) = Some gs'
         \<and> found gs' = found ex_gs3 @ [''rates''] \<and> ''rates'' \<in> set (targets ex_gs3)
         \<and> ''rates'' \<notin> set (found ex_gs3))"
proof -
  note th = found_grows_within_targets [OF ex_reachable3 [of ex_render]]
  have s: "ex_S3 (uuid4_hex 7) = Some ex_gs3" by (simp add: ex_S3_def)
  from th s have 1: "distinct (found ex_gs3) \<and> set (found ex_gs3) \<subseteq> set (targets ex_gs3)"
    by blast
  from th have 2: "\<exists>gs. snd (new_game ex_G ex_client ex_rnd ex_S3) (uuid4_hex (uuid_draw ex_rnd)) = Some gs
         \<and> found gs = []"
    using prod.collapse [of "new_game ex_G ex_client ex_rnd ex_S3"] by metis
  have 3: "found ex_gs3 = [''stare'', ''aster'', ''tears'']" "''rates'' \<in> set (targets ex_gs3)"
    "''rates'' \<notin> set (found ex_gs3)"
    by (simp_all add: ex_gs3_def ex_gs_def)
  from 1 2 3 show ?thesis by (simp add: ex_gs3_def)
qed

theorem state_read_only_idempotent_witness:
  "state ex_S (Some (uuid4_hex 7)) =
     (Ok200 \<lparr>s_topic = ''animals'', s_scrambled = scramble (\<lambda>i. 0) ''aerst'', s_letters = ''aerst'',
             s_found = [], s_total = 4\<rparr>, ex_S)
   \<and> state (snd (state ex_S (Some (uuid4_hex 7)))) (Some (uuid4_hex 7)) = state ex_S (Some (uuid4_hex 7))"
  using state_read_only_idempotent [OF prod.collapse [symmetric], of ex_S "Some (uuid4_hex 7)"]
    ex_S_lookup(1)
  by (simp add: ex_gs_def state_def)


section \<open>Loading the body of a guess\<close>

lemma ex_long_int_refused: "10 ^ INT_MAX_STR_DIGITS \<le> \<bar>ex_long_int\<bar>"
proof -
  have "(0::int) \<le> 10 ^ INT_MAX_STR_DIGITS" by (rule zero_le_power) simp
  then have "\<bar>(10::int) ^ INT_MAX_STR_DIGITS\<bar> = 10 ^ INT_MAX_STR_DIGITS" by (rule abs_of_nonneg)
  moreover have "ex_long_int = 10 ^ INT_MAX_STR_DIGITS"
    unfolding ex_long_int_def INT_MAX_STR_DIGITS_def by (rule refl)
  ultimately show ?thesis by (simp only: order_refl)
qed

lemma strip_no_space: "\<forall>c \<in> set s. \<not> char_isspace c \<Longrightarrow> strip s = s"
proof -
  assume h: "\<forall>c \<in> set s. \<not> char_isspace c"
  then have "dropWhile char_isspace s = s"
    by (cases s) simp_all
  moreover from h have "dropWhile char_isspace (rev s) = rev s"
    by (cases "rev s") (simp, metis dropWhile.simps(2) list.set_intros(1) set_rev)
  ultimately show ?thesis by (simp add: strip_def)
qed

lemma lower_no_upper: "\<forall>c \<in> set s. char_lower c = c \<Longrightarrow> lower s = s"
  by (simp add: lower_def map_idI)

lemma digit_plain:
  "d < 10 \<Longrightarrow> char_lower (char_of (48 + d :: nat)) = char_of (48 + d)
     \<and> \<not> char_isspace (char_of (48 + d :: nat))"
  by (simp add: char_lower_def char_isspace_def Let_def)

lemma str_nat_plain:
  "c \<in> set (str_nat n) \<Longrightarrow> char_lower c = c \<and> \<not> char_isspace c"
proof (induction n rule: str_nat.induct)
  case (1 n)
  show ?case
  proof (cases "n < 10")
    case True
    then have "str_nat n = [char_of (48 + n)]"
      by (subst str_nat.simps) (simp del: str_nat.simps)
    with "1.prems" have "c = char_of (48 + n)" by (simp del: str_nat.simps)
    with digit_plain [OF True] show ?thesis by (simp del: str_nat.simps)
  next
    case False
    have m: "n mod 10 < 10" by simp
    from False have "str_nat n = str_nat (n div 10) @ [char_of (48 + n mod 10)]"
      by (subst str_nat.simps) (simp del: str_nat.simps)
    with "1.prems" have "c \<in> set (str_nat (n div 10)) \<or> c = char_of (48 + n mod 10)"
      by (auto simp del: str_nat.simps)
    with "1.IH" [OF False] digit_plain [OF m] show ?thesis by (auto simp del: str_nat.simps)
  qed
qed

lemma str_int_plain: "c \<in> set (str_int i) \<Longrightarrow> char_lower c = c \<and> \<not> char_isspace c"
  using str_nat_plain [of c]
  by (auto simp: str_int_def char_lower_def char_isspace_def simp del: str_nat.simps split: if_splits)

lemma normalized_str_int: "strip (lower (str_int i)) = str_int i"
proof -
  have l: "lower (str_int i) = str_int i"
    using str_int_plain [of _ i] by (intro lower_no_upper) blast
  have "strip (str_int i) = str_int i"
    using str_int_plain [of _ i] by (intro strip_no_space) blast
  with l show ?thesis by simp
qed

lemma normalized_words:
  "strip (lower ''None'') = ''none''" "strip (lower ''True'') = ''true''"
  "strip (lower ''False'') = ''false''" "strip (lower []) = []"
  by (simp_all add: strip_def lower_def char_lower_def char_isspace_def char_of_eq_iff)

lemma get_json_loaded:
  "get_json depth b = Inr data \<Longrightarrow> guess_request depth render S b = guess render S data"
  by (simp add: guess_request_def)

text \<open>
  A body that is not loaded ends the handler with that exception, before the store is
  read; a handled request leaves a reachable store reachable.
\<close>

lemma guess_request_refused:
  "get_json depth b = Inl e \<Longrightarrow> guess_request depth render S b = Inl e"
  by (simp add: guess_request_def)

lemma reachable_after_request:
  assumes "reachable G render S" and "guess_request depth render S b = Inr (r, S')"
  shows "reachable G render S'"
proof (cases "get_json depth b")
  case (Inl e)
  with assms(2) show ?thesis by (simp add: guess_request_def)
next
  case (Inr data)
  with assms(2) have "guess render S data = Inr (r, S')" by (simp add: guess_request_def)
  with assms(1) show ?thesis by (rule after_guess)
qed

lemma scan_items_member:
  "scan_items n kvs = None \<Longrightarrow> map_of kvs k = Some v \<Longrightarrow> scan n v = None"
  by (induction kvs) (auto split: option.splits if_splits)

lemma get_json_object:
  assumes "get_json depth b = Inr (JObj kvs)" and "map_of kvs k = Some (JInt i)"
  shows "\<bar>i\<bar> < 10 ^ INT_MAX_STR_DIGITS"
proof -
  from assms(1) have "scan depth (JObj kvs) = None"
    by (auto simp: get_json_def split: body.splits option.splits)
  then obtain m where "scan_items m kvs = None"
    by (cases depth) simp_all
  from scan_items_member [OF this assms(2)] show ?thesis
    by (simp split: if_splits)
qed

text \<open>
  C10, as amended. For a body that \<open>get_json\<close> loads (it is JSON, no whole number in it
  has more than 4300 digits, and it is nested no deeper than the recursion limit allows)
  and whose \<open>session_id\<close> is the key of a session, whatever the \<open>guess\<close> field holds: the
  handler does not raise and answers with status 200, and when the guess it read is not a
  target the answer has \<open>correct = False\<close> and \<open>found\<close> and the store are unchanged. The
  guess it reads is the empty string for an absent field, \<open>none\<close> for null, \<open>true\<close> or
  \<open>false\<close> for a boolean, the decimal digits for a whole number (which is within the
  limit, so \<open>str\<close> accepts it), and the lowercased, stripped \<open>str\<close> of any other value.
\<close>

theorem guess_request_on_loaded_body:
  assumes "get_json depth b = Inr (JObj kvs)"
    and "S sid = Some gs" and "sid \<noteq> []" and "dict_get kvs ''session_id'' = JStr sid"
  shows "(\<exists>r S'. guess_request depth render S b = Inr (Ok200 r, S')
            \<and> (normalized_guess render kvs \<notin> set (targets gs) \<longrightarrow>
                 r = \<lparr>g_correct = False, g_found = found gs,
                       g_remaining = int (length (targets gs)) - int (length (found gs)),
                       g_complete = (length (found gs) = length (targets gs))\<rparr>
                 \<and> S' = S))
       \<and> (map_of kvs ''guess'' = None \<longrightarrow> normalized_guess render kvs = [])
       \<and> (map_of kvs ''guess'' = Some JNull \<longrightarrow> normalized_guess render kvs = ''none'')
       \<and> (map_of kvs ''guess'' = Some (JBool True) \<longrightarrow> normalized_guess render kvs = ''true'')
       \<and> (map_of kvs ''guess'' = Some (JBool False) \<longrightarrow> normalized_guess render kvs = ''false'')
       \<and> (\<forall>i. map_of kvs ''guess'' = Some (JInt i) \<longrightarrow>
             \<bar>i\<bar> < 10 ^ INT_MAX_STR_DIGITS \<and> normalized_guess render kvs = str_int i)
       \<and> (\<forall>s. map_of kvs ''guess'' = Some (JStr s) \<longrightarrow>
             normalized_guess render kvs = strip (lower s))
       \<and> (\<forall>x. map_of kvs ''guess'' = Some (JFloat x) \<longrightarrow>
             normalized_guess render kvs = strip (lower (render (JFloat x))))
       \<and> (\<forall>vs. map_of kvs ''guess'' = Some (JArr vs) \<longrightarrow>
             normalized_guess render kvs = strip (lower (render (JArr vs))))
       \<and> (\<forall>ms. map_of kvs ''guess'' = Some (JObj ms) \<longrightarrow>
             normalized_guess render kvs = strip (lower (render (JObj ms))))"
proof -
  have run: "guess_request depth render S b = guess render S (JObj kvs)"
    using assms(1) by (rule get_json_loaded)
  have answer: "\<exists>r S'. guess_request depth render S b = Inr (Ok200 r, S')
            \<and> (normalized_guess render kvs \<notin> set (targets gs) \<longrightarrow>
                 r = \<lparr>g_correct = False, g_found = found gs,
                       g_remaining = int (length (targets gs)) - int (length (found gs)),
                       g_complete = (length (found gs) = length (targets gs))\<rparr>
                 \<and> S' = S)"
    unfolding run using assms(2-4) by (auto simp: guess_def Let_def)
  have ints: "\<forall>i. map_of kvs ''guess'' = Some (JInt i) \<longrightarrow>
             \<bar>i\<bar> < 10 ^ INT_MAX_STR_DIGITS \<and> normalized_guess render kvs = str_int i"
    using get_json_object [OF assms(1)]
    by (auto simp: normalized_guess_def dict_get_default_def normalized_str_int)
  have rest: "map_of kvs ''guess'' = None \<longrightarrow> normalized_guess render kvs = []"
    "map_of kvs ''guess'' = Some JNull \<longrightarrow> normalized_guess render kvs = ''none''"
    "map_of kvs ''guess'' = Some (JBool True) \<longrightarrow> normalized_guess render kvs = ''true''"
    "map_of kvs ''guess'' = Some (JBool False) \<longrightarrow> normalized_guess render kvs = ''false''"
    "\<forall>s. map_of kvs ''guess'' = Some (JStr s) \<longrightarrow> normalized_guess render kvs = strip (lower s)"
    "\<forall>x. map_of kvs ''guess'' = Some (JFloat x) \<longrightarrow>
             normalized_guess render kvs = strip (lower (render (JFloat x)))"
    "\<forall>vs. map_of kvs ''guess'' = Some (JArr vs) \<longrightarrow>
             normalized_guess render kvs = strip (lower (render (JArr vs)))"
    "\<forall>ms. map_of kvs ''guess'' = Some (JObj ms) \<longrightarrow>
             normalized_guess render kvs = strip (lower (render (JObj ms)))"
    by (simp_all add: normalized_guess_def dict_get_default_def normalized_words)
  from answer ints rest show ?thesis by blast
qed

lemma ex_short_int: "\<not> 10 ^ INT_MAX_STR_DIGITS \<le> (12345 :: int)"
proof -
  have "(5::nat) \<le> INT_MAX_STR_DIGITS" by (simp add: INT_MAX_STR_DIGITS_def)
  then have "(10::int) ^ 5 \<le> 10 ^ INT_MAX_STR_DIGITS" by (intro power_increasing) simp_all
  then show ?thesis by simp
qed

lemma ex_get_json:
  "get_json 900 (Document (JObj (ex_body (JInt 12345)))) = Inr (JObj (ex_body (JInt 12345)))"
  "get_json 900 (Document (JObj (ex_body JNull))) = Inr (JObj (ex_body JNull))"
  "get_json 900 (Document (JObj (ex_body (JInt ex_long_int)))) = Inl BadRequest"
  by (simp_all add: get_json_def ex_body_def ex_short_int ex_long_int_refused)

text \<open>
  C10 as it was stated fails: a body with the key of a session and a whole number of 4301
  digits as its guess is not loaded, and the handler raises \<open>BadRequest\<close> instead of
  answering with \<open>correct = False\<close>.
\<close>

theorem guess_request_long_integer_counterexample:
  "ex_S (uuid4_hex 7) = Some ex_gs
   \<and> dict_get (ex_body (JInt ex_long_int)) ''session_id'' = JStr (uuid4_hex 7)
   \<and> map_of (ex_body (JInt ex_long_int)) ''guess'' = Some (JInt ex_long_int)
   \<and> guess_request 900 ex_render ex_S (Document (JObj (ex_body (JInt ex_long_int)))) = Inl BadRequest"
  by (simp add: ex_S_lookup ex_body_fields guess_request_def ex_get_json) (simp add: ex_body_def)

theorem guess_request_on_loaded_body_witness:
  "guess_request 900 ex_render ex_S (Document (JObj (ex_body (JInt 12345)))) =
     Inr (Ok200 \<lparr>g_correct = False, g_found = [], g_remaining = 4, g_complete = False\<rparr>, ex_S)
   \<and> normalized_guess ex_render (ex_body (JInt 12345)) = ''12345''
   \<and> guess_request 900 ex_render ex_S (Document (JObj (ex_body JNull))) =
     Inr (Ok200 \<lparr>g_correct = False, g_found = [], g_remaining = 4, g_complete = False\<rparr>, ex_S)
   \<and> normalized_guess ex_render (ex_body JNull) = ''none''"
proof -
  have t: "targets ex_gs = [''aster'', ''rates'', ''stare'', ''tears'']" "found ex_gs = []"
    by (simp_all add: ex_gs_def)
  have g: "map_of (ex_body v) ''guess'' = Some v" for v
    by (simp add: ex_body_def)
  note num = guess_request_on_loaded_body [where depth = 900 and S = ex_S and sid = "uuid4_hex 7"
      and gs = ex_gs and kvs = "ex_body (JInt 12345)" and render = ex_render,
      OF ex_get_json(1) ex_S_lookup(1) uuid4_hex_nonempty ex_body_fields(1)]
  note null = guess_request_on_loaded_body [where depth = 900 and S = ex_S and sid = "uuid4_hex 7"
      and gs = ex_gs and kvs = "ex_body JNull" and render = ex_render,
      OF ex_get_json(2) ex_S_lookup(1) uuid4_hex_nonempty ex_body_fields(1)]
  have n1: "normalized_guess ex_render (ex_body (JInt 12345)) = ''12345''"
    using num g [of "JInt 12345"] by (simp add: str_int_def char_of_eq_iff)
  have n2: "normalized_guess ex_render (ex_body JNull) = ''none''"
    using null g [of JNull] by simp
  have 1: "guess_request 900 ex_render ex_S (Document (JObj (ex_body (JInt 12345)))) =
     Inr (Ok200 \<lparr>g_correct = False, g_found = [], g_remaining = 4, g_complete = False\<rparr>, ex_S)"
    using num n1 t by auto
  have 2: "guess_request 900 ex_render ex_S (Document (JObj (ex_body JNull))) =
     Inr (Ok200 \<lparr>g_correct = False, g_found = [], g_remaining = 4, g_complete = False\<rparr>, ex_S)"
    using null n2 t by auto
  from 1 n1 2 n2 show ?thesis by simp
qed

end
